theory Spec2Isabelle
  imports Complex_Main "HOL-Library.Log_Nat"
begin

section \<open>Python values and exceptions\<close>

text \<open>
  The module \<^verbatim>\<open>pymatgen/io/GWsetup.py\<close> is Python 2 with
  \<^verbatim>\<open>from __future__ import division\<close>: the operator \<^verbatim>\<open>/\<close> is true division
  and yields a float, which \<^verbatim>\<open>int(...)\<close> truncates towards zero. Python's unbounded
  integers are \<open>int\<close>. A float is an IEEE 754 double. Where an operand is an arbitrary
  float (the cell volume in \<^verbatim>\<open>get_npar\<close>) the arithmetic is modelled with its
  rounding and its overflow, below. Where a quotient of two integers is taken and
  truncated at once (\<^verbatim>\<open>electrons / 2 + len(structure)\<close>, and a band or frequency
  count divided by the parallel factor, which is at most 52) the quotient is modelled
  exactly: for integers below \<open>2\<^sup>4\<^sup>6\<close> the double quotient has the same integer part.
  Every exception the modelled code can raise is a value of \<open>py_error\<close>.
\<close>

datatype py_error = KeyError | IndexError | TypeError | SystemExit | OverflowError

text \<open>A value stored in a settings dictionary or in a test selection.\<close>

datatype pyval = IntV int | StrV string

text \<open>\<^verbatim>\<open>int(x)\<close> for a float \<open>x\<close>: truncation towards zero.\<close>

definition py_int :: "real \<Rightarrow> int" where
  "py_int x = (if 0 \<le> x then \<lfloor>x\<rfloor> else \<lceil>x\<rceil>)"

subsection \<open>Double precision\<close>

text \<open>
  A finite double is a real number; an operation may also yield an infinity.
  \<open>expo x\<close> is the binary exponent of a positive \<open>x\<close>, the integer \<open>e\<close> with
  \<open>2\<^sup>e \<le> x < 2\<^sup>e\<^sup>+\<^sup>1\<close>. \<open>ulp x\<close> is the spacing of the doubles around \<open>x\<close>:
  53 significant bits, and the fixed spacing \<open>2\<^sup>-\<^sup>1\<^sup>0\<^sup>7\<^sup>4\<close> of the subnormal numbers
  below \<open>2\<^sup>-\<^sup>1\<^sup>0\<^sup>2\<^sup>2\<close>. \<open>fl x\<close> rounds \<open>x\<close> to the nearest multiple of that spacing,
  a tie to the even one, as every IEEE operation rounds its exact result.
\<close>

definition expo :: "real \<Rightarrow> int" where
  "expo x = (if 1 \<le> x then bitlen \<lfloor>x\<rfloor> - 1 else - bitlen (\<lceil>1 / x\<rceil> - 1))"

definition round_even :: "real \<Rightarrow> int" where
  "round_even x =
     (let f = \<lfloor>x\<rfloor>; d = x - of_int f
      in if d < 1 / 2 then f else if 1 / 2 < d then f + 1 else if even f then f else f + 1)"

definition ulp :: "real \<Rightarrow> real" where
  "ulp x = 2 powi (max (expo x) (- 1022) - 52)"

definition fl :: "real \<Rightarrow> real" where
  "fl x = (if x = 0 then 0
           else if 0 < x then of_int (round_even (x / ulp x)) * ulp x
           else - (of_int (round_even (- x / ulp (- x))) * ulp (- x)))"

text \<open>The largest finite double.\<close>

definition double_max :: real where
  "double_max = (2 ^ 53 - 1) * 2 ^ 971"

datatype pyfloat = Finite real | PosInf | NegInf

text \<open>The result of an operation whose exact value is \<open>x\<close>: rounded, infinite beyond the range.\<close>

definition float_round :: "real \<Rightarrow> pyfloat" where
  "float_round x =
     (let r = fl x
      in if double_max < r then PosInf else if r < - double_max then NegInf else Finite r)"

text \<open>
  The conversion of an integer operand to a float, as \<^verbatim>\<open>int * float\<close> does: an integer
  beyond the range raises \<^verbatim>\<open>OverflowError\<close>.
\<close>

definition float_of_int :: "int \<Rightarrow> py_error + real" where
  "float_of_int n =
     (case float_round (of_int n) of Finite r \<Rightarrow> Inr r | PosInf \<Rightarrow> Inl OverflowError | NegInf \<Rightarrow> Inl OverflowError)"

text \<open>The product of two finite floats; an overflow yields an infinity and raises nothing.\<close>

definition float_mul :: "real \<Rightarrow> real \<Rightarrow> pyfloat" where
  "float_mul a b = float_round (a * b)"

text \<open>A float divided by a finite float \<open>d\<close> that is not zero.\<close>

definition float_div :: "pyfloat \<Rightarrow> real \<Rightarrow> pyfloat" where
  "float_div a d =
     (case a of
        Finite x \<Rightarrow> float_round (x / d)
      | PosInf \<Rightarrow> (if 0 < d then PosInf else NegInf)
      | NegInf \<Rightarrow> (if 0 < d then NegInf else PosInf))"

text \<open>\<^verbatim>\<open>int(x)\<close> for any float: an infinity raises \<^verbatim>\<open>OverflowError\<close>.\<close>

definition int_of_float :: "pyfloat \<Rightarrow> py_error + int" where
  "int_of_float a =
     (case a of Finite x \<Rightarrow> Inr (py_int x) | PosInf \<Rightarrow> Inl OverflowError | NegInf \<Rightarrow> Inl OverflowError)"

subsection \<open>Dictionaries\<close>

text \<open>\<^verbatim>\<open>d[k]\<close> on a dictionary: a missing key raises \<^verbatim>\<open>KeyError\<close>.\<close>

definition getitem :: "('k \<rightharpoonup> 'v) \<Rightarrow> 'k \<Rightarrow> py_error + 'v" where
  "getitem d k = (case d k of None \<Rightarrow> Inl KeyError | Some v \<Rightarrow> Inr v)"

section \<open>Structures, potentials and collaborators\<close>

text \<open>
  What the module reads of a \<^verbatim>\<open>Structure\<close>: the element symbol of every site
  (\<^verbatim>\<open>structure.species\<close>; \<^verbatim>\<open>len(structure)\<close> and \<^verbatim>\<open>structure.num_sites\<close> are
  the number of sites), the cell volume, the volume of the reciprocal lattice, and the
  band extrema attached by \<^verbatim>\<open>main\<close>.
\<close>

record Structure =
  species :: "string list"
  volume :: real
  reciprocal_volume :: real
  cbm :: "real list"
  vbm :: "real list"

text \<open>One entry of a \<^verbatim>\<open>Potcar\<close>: \<^verbatim>\<open>pot_single.element\<close> and \<^verbatim>\<open>pot_single.nelectrons\<close>.\<close>

record potcar_single =
  element :: string
  nelectrons :: int

text \<open>A \<^verbatim>\<open>Kpoints\<close> object, as its constructor is called in \<^verbatim>\<open>get_kpoints\<close>.\<close>

record kpoints =
  comment :: string
  style :: string
  num_kpts :: int
  kpts :: "real list list"
  kpts_weights :: "int list"

text \<open>
  The functions of pymatgen that the module calls and that live outside it. They are
  parameters of the model: \<^verbatim>\<open>Structure.get_sorted_structure\<close>,
  \<^verbatim>\<open>DictVaspInputSet.get_potcar_symbols\<close>, the \<^verbatim>\<open>Potcar\<close> constructor,
  \<^verbatim>\<open>Kpoints.automatic_gamma_density\<close>, \<^verbatim>\<open>Kpoints.automatic_density\<close> and
  \<^verbatim>\<open>SymmetryFinder(structure, symprec=0.0).get_ir_reciprocal_mesh\<close>.
\<close>

record external =
  get_sorted_structure :: "Structure \<Rightarrow> Structure"
  get_potcar_symbols :: "Structure \<Rightarrow> string list"
  Potcar :: "string list \<Rightarrow> string \<Rightarrow> potcar_single list"
  automatic_gamma_density :: "Structure \<Rightarrow> int \<Rightarrow> kpoints"
  automatic_density :: "Structure \<Rightarrow> real \<Rightarrow> kpoints"
  get_ir_reciprocal_mesh :: "Structure \<Rightarrow> real list \<Rightarrow> (real list \<times> int) list"

section \<open>Sweep catalogs\<close>

text \<open>
  An entry of a class attribute \<^verbatim>\<open>TESTS\<close>; \<open>test_method\<close> is its key \<^verbatim>\<open>'method'\<close>.
\<close>

record test_entry =
  test_range :: "int list"
  test_method :: string
  control :: string

type_synonym catalog = "string \<rightharpoonup> test_entry"

text \<open>\<^verbatim>\<open>MPGWscDFTPrepVaspInputSet.TESTS\<close>\<close>

definition TESTS_prep :: catalog where
  "TESTS_prep = Map.empty"

text \<open>\<^verbatim>\<open>MPGWDFTDiagVaspInputSet.TESTS\<close>\<close>

definition TESTS_diag :: catalog where
  "TESTS_diag = [''NBANDS'' \<mapsto>
     \<lparr>test_range = [10, 20, 30], test_method = ''set_nbands'', control = ''gap''\<rparr>]"

text \<open>\<^verbatim>\<open>MPGWG0W0VaspInputSet.TESTS\<close>\<close>

definition TESTS_g0w0 :: catalog where
  "TESTS_g0w0 = [''ENCUTGW'' \<mapsto>
       \<lparr>test_range = [200, 300, 400], test_method = ''incar_settings'', control = ''gap''\<rparr>,
     ''NOMEGA'' \<mapsto>
       \<lparr>test_range = [80, 100, 120], test_method = ''set_nomega'', control = ''gap''\<rparr>]"

text \<open>
  The first three statements of \<^verbatim>\<open>set_test\<close>: a copy of the ground-state table,
  updated with the diagonalization table and then with the many-body table
  (\<^verbatim>\<open>dict.update\<close>: the later table wins on a shared key).
\<close>

definition all_tests :: "catalog \<Rightarrow> catalog \<Rightarrow> catalog \<Rightarrow> catalog" where
  "all_tests prep diag g0w0 = (prep ++ diag) ++ g0w0"

section \<open>The input sets\<close>

text \<open>
  The attributes of an input set that the modelled methods read or write. The three
  classes share them: \<^verbatim>\<open>MPGWDFTDiagVaspInputSet\<close> extends
  \<^verbatim>\<open>MPGWscDFTPrepVaspInputSet\<close>, and \<^verbatim>\<open>MPGWG0W0VaspInputSet\<close> extends it in turn.
  \<open>struct\<close> is \<^verbatim>\<open>self.structure\<close>; \<open>nomega_max\<close> is set by the many-body constructor
  alone. The attributes \<^verbatim>\<open>tests\<close> and \<^verbatim>\<open>sym_prec\<close> are written by the constructors and
  read by no modelled method; they are left out.
\<close>

record inputset =
  struct :: Structure
  incar_settings :: "string \<rightharpoonup> pyval"
  kpoints_settings :: "string \<rightharpoonup> real"
  functional :: string
  sort_structure :: bool
  nomega_max :: "real option"

text \<open>\<^verbatim>\<open>get_potcar\<close> (lines 101-107).\<close>

definition get_potcar :: "external \<Rightarrow> inputset \<Rightarrow> Structure \<Rightarrow> potcar_single list" where
  "get_potcar ext self st =
     (let st' = (if sort_structure self then get_sorted_structure ext st else st)
      in Potcar ext (get_potcar_symbols ext st') (functional self))"

text \<open>
  The loop of \<^verbatim>\<open>get_electrons\<close> that fills \<^verbatim>\<open>valence_list\<close>: one
  \<^verbatim>\<open>update\<close> per entry of the potcar, in order, so a later entry of the same element
  overwrites an earlier one.
\<close>

fun valence_list :: "(string \<rightharpoonup> int) \<Rightarrow> potcar_single list \<Rightarrow> (string \<rightharpoonup> int)" where
  "valence_list acc [] = acc"
| "valence_list acc (p # ps) = valence_list (acc(element p \<mapsto> nelectrons p)) ps"

text \<open>
  The list comprehension \<^verbatim>\<open>[valence_list[element.symbol] for element in structure.species]\<close>:
  the first site whose element has no entry raises \<^verbatim>\<open>KeyError\<close>.
\<close>

fun lookup_species :: "(string \<rightharpoonup> int) \<Rightarrow> string list \<Rightarrow> py_error + int list" where
  "lookup_species tab [] = Inr []"
| "lookup_species tab (el # els) =
     (case getitem tab el of
        Inl e \<Rightarrow> Inl e
      | Inr n \<Rightarrow> (case lookup_species tab els of Inl e \<Rightarrow> Inl e | Inr ns \<Rightarrow> Inr (n # ns)))"

text \<open>\<^verbatim>\<open>get_electrons\<close> (lines 125-134); \<^verbatim>\<open>int\<close> of an integer is that integer.\<close>

definition get_electrons :: "external \<Rightarrow> inputset \<Rightarrow> Structure \<Rightarrow> py_error + int" where
  "get_electrons ext self st =
     (case lookup_species (valence_list Map.empty (get_potcar ext self st)) (species st) of
        Inl e \<Rightarrow> Inl e
      | Inr ns \<Rightarrow> Inr (sum_list ns))"

text \<open>\<^verbatim>\<open>get_bands\<close> (lines 136-141): true division by 2, then truncation.\<close>

definition get_bands :: "external \<Rightarrow> inputset \<Rightarrow> Structure \<Rightarrow> py_error + int" where
  "get_bands ext self st =
     (case get_electrons ext self st of
        Inl e \<Rightarrow> Inl e
      | Inr electrons \<Rightarrow> Inr (py_int (real_of_int electrons / 2 + real (length (species st)))))"

text \<open>
  \<^verbatim>\<open>get_npar\<close> (lines 72-78). \<^verbatim>\<open>bands ** 2\<close> is an integer; it is converted to a
  double and multiplied by the volume, the product is divided by 600.0, and \<^verbatim>\<open>int\<close>
  truncates the quotient. Each of the three steps rounds.
\<close>

definition get_npar :: "external \<Rightarrow> inputset \<Rightarrow> Structure \<Rightarrow> py_error + int" where
  "get_npar ext self st =
     (case get_bands ext self st of
        Inl e \<Rightarrow> Inl e
      | Inr bands \<Rightarrow>
          (case float_of_int (bands ^ 2) of
             Inl e \<Rightarrow> Inl e
           | Inr bands2 \<Rightarrow>
               (case int_of_float (float_div (float_mul bands2 (volume st)) 600) of
                  Inl e \<Rightarrow> Inl e
                | Inr npar \<Rightarrow> Inr (min (max npar 1) 52))))"

text \<open>
  A dictionary whose iteration order matters (\<^verbatim>\<open>_test_.keys()[0]\<close>, \<^verbatim>\<open>str(option[0])\<close>)
  is the list of its items in that order, with distinct keys; \<open>map_of\<close> reads it.
\<close>

type_synonym selection = "(string \<times> pyval) list"

text \<open>
  A method that returns nothing yields the exception it raised, if any, and the object
  as the call leaves it.
\<close>

type_synonym 'a outcome = "py_error option \<times> 'a"

text \<open>
  \<^verbatim>\<open>set_test\<close> from line 87 on, for the table \<open>tests\<close> that lines 84-86 have built.
  Its four \<^verbatim>\<open>if\<close> statements run one after the other. Dividing a string raises
  \<^verbatim>\<open>TypeError\<close>; a string times the band count is a string in Python 2, and dividing
  that raises it too.
\<close>

definition set_test_with ::
  "catalog \<Rightarrow> external \<Rightarrow> inputset \<Rightarrow> selection \<Rightarrow> inputset outcome" where
  "set_test_with tests ext self t =
     (case t of
        [] \<Rightarrow> (Some IndexError, self)
      | (key, _) # _ \<Rightarrow>
          (case getitem tests key of
             Inl e \<Rightarrow> (Some e, self)
           | Inr entry \<Rightarrow>
               (let test_type = test_method entry in
                case get_npar ext self (struct self) of
                  Inl e \<Rightarrow> (Some e, self)
                | Inr npar \<Rightarrow>
                    (let r1 = (if test_type = ''incar_settings''
                               then (None, self\<lparr>incar_settings := incar_settings self ++ map_of t\<rparr>)
                               else (None, self));
                         r2 = (case r1 of
                                 (Some e, s) \<Rightarrow> (Some e, s)
                               | (None, s) \<Rightarrow>
                                   if test_type = ''set_nomega'' then
                                     (case getitem (map_of t) ''NOMEGA'' of
                                        Inl e \<Rightarrow> (Some e, s)
                                      | Inr (StrV _) \<Rightarrow> (Some TypeError, s)
                                      | Inr (IntV v) \<Rightarrow>
                                          (let nomega = npar * py_int (real_of_int v / real_of_int npar)
                                           in (None, s\<lparr>incar_settings :=
                                                 (incar_settings s)(''NOMEGA'' \<mapsto> IntV nomega)\<rparr>)))
                                   else (None, s));
                         r3 = (case r2 of
                                 (Some e, s) \<Rightarrow> (Some e, s)
                               | (None, s) \<Rightarrow>
                                   if test_type = ''set_nbands'' then
                                     (case getitem (map_of t) ''NBANDS'' of
                                        Inl e \<Rightarrow> (Some e, s)
                                      | Inr val \<Rightarrow>
                                          (case get_bands ext s (struct s) of
                                             Inl e \<Rightarrow> (Some e, s)
                                           | Inr bands \<Rightarrow>
                                               (case val of
                                                  StrV _ \<Rightarrow> (Some TypeError, s)
                                                | IntV v \<Rightarrow>
                                                    (let nbands = v * bands;
                                                         nbands = npar * py_int (real_of_int nbands / real_of_int npar + 1)
                                                     in (None, s\<lparr>incar_settings :=
                                                           (incar_settings s)(''NBANDS'' \<mapsto> IntV nbands)\<rparr>)))))
                                   else (None, s))
                     in (case r3 of
                           (Some e, s) \<Rightarrow> (Some e, s)
                         | (None, s) \<Rightarrow>
                             if test_type = ''kpoint_grid'' then (None, s) else (None, s))))))"

text \<open>\<^verbatim>\<open>set_test\<close> (lines 80-99), with the tables of the three classes.\<close>

definition set_test :: "external \<Rightarrow> inputset \<Rightarrow> selection \<Rightarrow> inputset outcome" where
  "set_test ext self t = set_test_with (all_tests TESTS_prep TESTS_diag TESTS_g0w0) ext self t"

text \<open>\<^verbatim>\<open>set_gw_bands\<close> (lines 209-217).\<close>

definition set_gw_bands :: "external \<Rightarrow> inputset \<Rightarrow> int \<Rightarrow> inputset outcome" where
  "set_gw_bands ext self factor =
     (case get_bands ext self (struct self) of
        Inl e \<Rightarrow> (Some e, self)
      | Inr gw_bands \<Rightarrow>
          (case get_npar ext self (struct self) of
             Inl e \<Rightarrow> (Some e, self)
           | Inr npar \<Rightarrow>
               (let gw_bands = npar * py_int (real_of_int (factor * gw_bands) / real_of_int npar + 1);
                    self = self\<lparr>incar_settings := (incar_settings self)(''NBANDS'' \<mapsto> IntV gw_bands)\<rparr>
                in if gw_bands > 800
                   then (None, self\<lparr>incar_settings := (incar_settings self)(''ALGO'' \<mapsto> StrV ''fast'')\<rparr>)
                   else (None, self))))"

text \<open>
  The loop of \<^verbatim>\<open>get_kpoints\<close> over the irreducible points, appending to \<^verbatim>\<open>kpts\<close>
  and \<^verbatim>\<open>weights\<close>.
\<close>

fun ir_loop :: "(real list \<times> int) list \<Rightarrow> real list list \<Rightarrow> int list \<Rightarrow> real list list \<times> int list" where
  "ir_loop [] kpts' weights = (kpts', weights)"
| "ir_loop (k # ks) kpts' weights = ir_loop ks (kpts' @ [fst k]) (weights @ [snd k])"

text \<open>
  \<^verbatim>\<open>MPGWDFTDiagVaspInputSet.get_kpoints\<close> (lines 181-207); \<^verbatim>\<open>kpoints.kpts[0]\<close> raises
  \<^verbatim>\<open>IndexError\<close> on an empty list.
\<close>

definition get_kpoints :: "external \<Rightarrow> inputset \<Rightarrow> Structure \<Rightarrow> bool \<Rightarrow> py_error + kpoints" where
  "get_kpoints ext self st regular =
     (if regular then
        (let st' = (if sort_structure self then get_sorted_structure ext st else st) in
         case getitem (kpoints_settings self) ''grid_density'' of
           Inl e \<Rightarrow> Inl e
         | Inr d \<Rightarrow> Inr (automatic_gamma_density ext st' (py_int d)))
      else
        (case getitem (kpoints_settings self) ''kpoints_density'' of
           Inl e \<Rightarrow> Inl e
         | Inr kd \<Rightarrow>
             (let num_kpoints = kd * reciprocal_volume st;
                  kpoints = automatic_density ext st (num_kpoints * real (length (species st)))
              in case kpts kpoints of
                   [] \<Rightarrow> Inl IndexError
                 | mesh # _ \<Rightarrow>
                     (let ir_kpts = get_ir_reciprocal_mesh ext st mesh;
                          (kpts', weights) = ir_loop ir_kpts [] [];
                          kpts' = kpts' @ [cbm st];
                          weights = weights @ [0];
                          kpts' = kpts' @ [vbm st];
                          weights = weights @ [0]
                      in Inr \<lparr>comment = ''uniform grid with extrema'', style = ''Reciprocal'',
                              num_kpts = int (length ir_kpts), kpts = kpts',
                              kpts_weights = weights\<rparr>))))"

text \<open>
  \<^verbatim>\<open>MPGWDFTDiagVaspInputSet.__init__\<close> (lines 163-179). \<open>base\<close> is the object as
  \<^verbatim>\<open>DictVaspInputSet.__init__\<close> leaves it, with the settings of
  \<^verbatim>\<open>MPGWVaspInputSet.json\<close>. An exception leaves no object.
\<close>

definition MPGWDFTDiagVaspInputSet :: "external \<Rightarrow> inputset \<Rightarrow> Structure \<Rightarrow> string \<Rightarrow> py_error + inputset" where
  "MPGWDFTDiagVaspInputSet ext base st func =
     (let self = base\<lparr>struct := st, functional := func\<rparr> in
      case get_npar ext self (struct self) of
        Inl e \<Rightarrow> Inl e
      | Inr npar \<Rightarrow>
          (let self = self\<lparr>incar_settings := incar_settings self ++
                        [''ALGO'' \<mapsto> StrV ''Exact'', ''NELM'' \<mapsto> IntV 1, ''LOPTICS'' \<mapsto> StrV ''TRUE'']\<rparr>
           in case set_gw_bands ext self 15 of
                (Some e, _) \<Rightarrow> Inl e
              | (None, self) \<Rightarrow>
                  Inr (self\<lparr>incar_settings := (incar_settings self)(''NPAR'' \<mapsto> IntV npar)\<rparr>)))"

text \<open>\<^verbatim>\<open>MPGWG0W0VaspInputSet.__init__\<close> (lines 237-258).\<close>

definition MPGWG0W0VaspInputSet :: "external \<Rightarrow> inputset \<Rightarrow> Structure \<Rightarrow> string \<Rightarrow> py_error + inputset" where
  "MPGWG0W0VaspInputSet ext base st func =
     (let self = base\<lparr>struct := st, functional := func\<rparr> in
      case get_npar ext self st of
        Inl e \<Rightarrow> Inl e
      | Inr npar \<Rightarrow>
          (let self = self\<lparr>incar_settings := incar_settings self ++
                        [''ALGO'' \<mapsto> StrV ''GW0'', ''ENCUTGW'' \<mapsto> IntV 250,
                         ''LWAVE'' \<mapsto> StrV ''FALSE'', ''NELM'' \<mapsto> IntV 1]\<rparr>
           in case get_kpoints ext self st True of
                Inl e \<Rightarrow> Inl e
              | Inr k \<Rightarrow>
                  (case kpts k of
                     [] \<Rightarrow> Inl IndexError
                   | [] # _ \<Rightarrow> Inl IndexError
                   | (k00 # _) # _ \<Rightarrow>
                       (let self = self\<lparr>nomega_max := Some (25 * k00)\<rparr>;
                            nomega = npar * py_int (25 * k00 / real_of_int npar)
                        in case set_gw_bands ext self 15 of
                             (Some e, _) \<Rightarrow> Inl e
                           | (None, self) \<Rightarrow>
                               Inr (self\<lparr>incar_settings := incar_settings self ++
                                      [''NPAR'' \<mapsto> IntV npar, ''NOMEGA'' \<mapsto> IntV nomega,
                                       ''LWANNIER90_RUN'' \<mapsto> StrV ''.TRUE.'',
                                       ''LWRITE_MMN_AMN'' \<mapsto> StrV ''.TRUE.'']\<rparr>)))))"


section \<open>Folder names\<close>

text \<open>
  Python's \<^verbatim>\<open>str\<close> of a dictionary joins \<^verbatim>\<open>repr(key) + ': ' + repr(value)\<close> with
  \<^verbatim>\<open>', '\<close> between braces. \<^verbatim>\<open>repr\<close> of an integer is its decimal numeral;
  \<^verbatim>\<open>repr\<close> of a byte string quotes it (with \<^verbatim>\<open>"\<close> when it holds a \<^verbatim>\<open>'\<close> and no
  \<^verbatim>\<open>"\<close>) and escapes the quote, the backslash and the bytes that do not print.
\<close>

definition digit_char :: "nat \<Rightarrow> char" where
  "digit_char n = ''0123456789abcdef'' ! n"

fun digits :: "nat \<Rightarrow> string" where
  "digits n = (if n < 10 then [digit_char n] else digits (n div 10) @ [digit_char (n mod 10)])"

declare digits.simps [simp del]

definition str_int :: "int \<Rightarrow> string" where
  "str_int i = (if i < 0 then CHR ''-'' # digits (nat (- i)) else digits (nat i))"

definition escape_char :: "char \<Rightarrow> char \<Rightarrow> string" where
  "escape_char quote c =
     (let n = (of_char c :: nat) in
      if c = quote \<or> c = CHR 0x5C then [CHR 0x5C, c]
      else if n = 9 then [CHR 0x5C, CHR ''t'']
      else if n = 10 then [CHR 0x5C, CHR ''n'']
      else if n = 13 then [CHR 0x5C, CHR ''r'']
      else if n < 32 \<or> 127 \<le> n then [CHR 0x5C, CHR ''x'', digit_char (n div 16), digit_char (n mod 16)]
      else [c])"

definition repr_str :: "string \<Rightarrow> string" where
  "repr_str s =
     (let quote = (if CHR 0x27 \<in> set s \<and> CHR 0x22 \<notin> set s then CHR 0x22 else CHR 0x27)
      in [quote] @ concat (map (escape_char quote) s) @ [quote])"

fun repr :: "pyval \<Rightarrow> string" where
  "repr (IntV i) = str_int i"
| "repr (StrV s) = repr_str s"

fun join :: "string \<Rightarrow> string list \<Rightarrow> string" where
  "join sep [] = []"
| "join sep [x] = x"
| "join sep (x # y # ys) = x @ sep @ join sep (y # ys)"

definition str_dict :: "selection \<Rightarrow> string" where
  "str_dict d = ''{'' @ join '', '' (map (\<lambda>(k, v). repr_str k @ '': '' @ repr v) d) @ ''}''"

text \<open>\<^verbatim>\<open>s.replace(char, "")\<close> for a one-character \<^verbatim>\<open>char\<close>: every occurrence goes.\<close>

definition replace_char :: "char \<Rightarrow> string \<Rightarrow> string" where
  "replace_char c s = filter (\<lambda>x. x \<noteq> c) s"

text \<open>The list the \<^verbatim>\<open>for\<close> loop of \<^verbatim>\<open>folder_name\<close> runs over.\<close>

definition unsafe_chars :: "char list" where
  "unsafe_chars = [CHR 0x27, CHR '':'', CHR '' '', CHR '','', CHR ''{'', CHR ''}'']"

text \<open>The loop, on the two names at once.\<close>

fun strip_loop :: "char list \<Rightarrow> string \<times> string \<Rightarrow> string \<times> string" where
  "strip_loop [] names = names"
| "strip_loop (c # cs) (option_prep_name, option_name) =
     strip_loop cs (replace_char c option_prep_name, replace_char c option_name)"

text \<open>
  \<^verbatim>\<open>folder_name\<close> (lines 755-768). \<open>option\<close> is a list; \<^verbatim>\<open>option[0]\<close> and
  \<^verbatim>\<open>option[1]\<close> raise \<^verbatim>\<open>IndexError\<close> on a list too short. The same statements open
  \<^verbatim>\<open>create_input\<close> and \<^verbatim>\<open>create_job_script\<close>.
\<close>

definition folder_name :: "selection list \<Rightarrow> py_error + string list" where
  "folder_name option =
     (case option of
        o0 # o1 # _ \<Rightarrow>
          (let (option_prep_name, option_name) = strip_loop unsafe_chars (str_dict o0, str_dict o1);
               option_prep_name = (if length option_prep_name > 0 then ''.'' @ option_prep_name
                                   else option_prep_name);
               option_name = (if length option_name > 0 then ''.'' @ option_name else option_name)
           in Inr [option_prep_name, option_name])
      | _ \<Rightarrow> Inl IndexError)"

text \<open>
  The selections the sweep produces are empty or hold one parameter name with an integer
  value. \<open>simple_selection\<close> says so for a name made of letters and underscores, as
  the names of the three tables are.
\<close>

definition name_char :: "char \<Rightarrow> bool" where
  "name_char c = (let n = (of_char c :: nat) in (65 \<le> n \<and> n \<le> 90) \<or> (97 \<le> n \<and> n \<le> 122) \<or> n = 95)"

fun simple_selection :: "selection \<Rightarrow> bool" where
  "simple_selection [] = True"
| "simple_selection [(k, IntV v)] = list_all name_char k"
| "simple_selection _ = False"

text \<open>
  Two notions for the proofs: the number a string of decimal digits stands for, and the
  label of one selection, which is what the loop of \<open>folder_name\<close> and the prefixing
  come to.
\<close>

definition digits_value :: "string \<Rightarrow> nat" where
  "digits_value ds = foldl (\<lambda>a c. 10 * a + (of_char c - 48)) 0 ds"

definition label :: "selection \<Rightarrow> string" where
  "label d = (let s = filter (\<lambda>c. c \<notin> set unsafe_chars) (str_dict d)
              in if s = [] then [] else ''.'' @ s)"

section \<open>The specification object\<close>

text \<open>The dictionary \<^verbatim>\<open>GWSpecs.data\<close>, one field per key.\<close>

record spec_data =
  d_mode :: string
  d_jobs :: "string list"
  d_test :: bool
  d_source :: string
  d_code :: string
  d_functional :: string
  d_kp_grid_dens :: int
  d_prec :: string

record GWSpecs =
  data :: spec_data
  warnings :: "string list"
  errors :: "string list"

text \<open>
  What a call changes outside the object: the files (a path has contents or does not
  exist) and the lines printed.
\<close>

record world =
  files :: "string \<rightharpoonup> string"
  stdout :: "string list"

text \<open>\<^verbatim>\<open>GWSpecs.__init__\<close> (lines 598-602).\<close>

definition GWSpecs_init :: GWSpecs where
  "GWSpecs_init =
     \<lparr>data = \<lparr>d_mode = ''ceci'', d_jobs = [''prep'', ''G0W0''], d_test = False,
              d_source = ''mp-vasp'', d_code = ''VASP'', d_functional = ''PBE'',
              d_kp_grid_dens = 500, d_prec = ''m''\<rparr>,
      warnings = [], errors = []\<rparr>"

definition lower_char :: "char \<Rightarrow> char" where
  "lower_char c = (let n = (of_char c :: nat) in if 65 \<le> n \<and> n \<le> 90 then char_of (n + 32) else c)"

text \<open>\<^verbatim>\<open>s.lower()\<close>\<close>

definition lower :: "string \<Rightarrow> string" where
  "lower s = map lower_char s"

fun startswith :: "string \<Rightarrow> string \<Rightarrow> bool" where
  "startswith s [] = True"
| "startswith [] (p # ps) = False"
| "startswith (c # cs) (p # ps) = (c = p \<and> startswith cs ps)"

text \<open>\<^verbatim>\<open>sub in s\<close> for two strings.\<close>

fun contains :: "string \<Rightarrow> string \<Rightarrow> bool" where
  "contains sub [] = (sub = [])"
| "contains sub (c # cs) = (startswith (c # cs) sub \<or> contains sub cs)"

text \<open>\<^verbatim>\<open>str\<close> of a list of strings, as \<^verbatim>\<open>print self.errors\<close> writes it.\<close>

definition str_list :: "string list \<Rightarrow> string" where
  "str_list xs = ''['' @ join '', '' (map repr_str xs) @ '']''"

text \<open>\<^verbatim>\<open>reset_job_collection\<close> (lines 614-621).\<close>

definition reset_job_collection :: "GWSpecs \<Rightarrow> world \<Rightarrow> world" where
  "reset_job_collection self w =
     (if contains ''ceci'' (d_mode (data self)) then
        (let w = (if files w ''job_collection'' \<noteq> None
                  then w\<lparr>files := (files w)(''job_collection'' := None)\<rparr> else w)
         in if contains ''ABINIT'' (d_code (data self))
            then w\<lparr>files := (files w)(''job_collection'' \<mapsto> ''module load abinit \<newline>'')\<rparr>
            else w)
      else w)"

text \<open>
  \<^verbatim>\<open>GWSpecs.test\<close> (lines 667-690), in the order of its statements: the check of the
  mode (lines 668-669), of the code and the functional (lines 670-679), of the source
  (lines 680-682), and the report (lines 683-690). \<^verbatim>\<open>exit()\<close> raises
  \<^verbatim>\<open>SystemExit\<close>; the result holds the object and the world as they are then.
\<close>

definition check_mode :: "GWSpecs \<Rightarrow> GWSpecs" where
  "check_mode self =
     (if lower (d_mode (data self)) \<notin> set [''input'', ''ceci'', ''fw'']
      then self\<lparr>errors := errors self @ [''unspecified mode'']\<rparr> else self)"

definition check_code :: "GWSpecs \<Rightarrow> GWSpecs" where
  "check_code self =
     (if d_code (data self) = ''VASP'' then
        (if d_functional (data self) \<notin> set [''PBE'', ''LDA'']
         then self\<lparr>errors := errors self @ [d_functional (data self) @ ''not defined for VASP yet'']\<rparr>
         else self)
      else if d_code (data self) = ''ABINIT'' then
        (let self = (if d_test (data self) \<and> d_code (data self) = ''ABINIT''
                     then self\<lparr>warnings := warnings self @ [''no tests defined for ABINIT calculations'']\<rparr>
                     else self)
         in if d_functional (data self) \<notin> set [''PBE'']
            then self\<lparr>errors := errors self @ [d_functional (data self) @ ''not defined for ABINIT yet'']\<rparr>
            else self)
      else self\<lparr>errors := errors self @ [''unknown code'']\<rparr>)"

definition check_source :: "world \<Rightarrow> GWSpecs \<Rightarrow> GWSpecs" where
  "check_source w self =
     (if d_source (data self) \<notin> set [''poscar'', ''mp-vasp'']
      then (if files w (d_source (data self)) = None
            then self\<lparr>errors := errors self @ [''no structures defined'']\<rparr> else self)
      else self)"

definition GWSpecs_test :: "GWSpecs \<Rightarrow> world \<Rightarrow> py_error option \<times> GWSpecs \<times> world" where
  "GWSpecs_test self w =
     (let self = check_mode self;
          self = check_code self;
          self = check_source w self
      in if length (errors self) > 0 then
           (Some SystemExit, self,
            w\<lparr>stdout := stdout w @ [str_int (int (length (errors self))) @ '' error(s) found:'',
                                     str_list (errors self)]\<rparr>)
         else
           (let w = (if length (warnings self) > 0
                     then w\<lparr>stdout := stdout w @ [str_int (int (length (warnings self))) @ '' warning(s) found:'',
                                                  str_list (warnings self)]\<rparr>
                     else w)
            in (None, self, reset_job_collection self w)))"

text \<open>\<^verbatim>\<open>from_dict\<close> (lines 610-612).\<close>

definition from_dict :: "GWSpecs \<Rightarrow> spec_data \<Rightarrow> world \<Rightarrow> py_error option \<times> GWSpecs \<times> world" where
  "from_dict self d w = GWSpecs_test (self\<lparr>data := d\<rparr>) w"

text \<open>
  The last two statements of the script (lines 825-826): \<^verbatim>\<open>spec_in.test()\<close>, then
  \<^verbatim>\<open>main(spec=spec_in)\<close>. \<open>main\<close> stands for the function of that name and returns the
  jobs it creates through \<^verbatim>\<open>excecute_flow\<close> and \<^verbatim>\<open>create_job\<close>; an exception raised
  by \<^verbatim>\<open>test\<close> ends the script before it is called.
\<close>

definition script :: "(GWSpecs \<Rightarrow> world \<Rightarrow> 'job list) \<Rightarrow> GWSpecs \<Rightarrow> world \<Rightarrow> py_error option \<times> 'job list" where
  "script main spec_in w =
     (case GWSpecs_test spec_in w of
        (Some e, _, _) \<Rightarrow> (Some e, [])
      | (None, spec_in, w) \<Rightarrow> (None, main spec_in w))"

section \<open>The estimator as the specification words it\<close>

text \<open>
  Section 4.2 of the specification gives the parallel factor as
  \<^verbatim>\<open>clamp(round(bands^2 * volume / 600), 1, 52)\<close>. This is that formula, to be
  compared with \<open>get_npar\<close>; \<open>round\<close> is the nearest integer.
\<close>

definition estimate_parallel_factor :: "int \<Rightarrow> real \<Rightarrow> int" where
  "estimate_parallel_factor bands v = min (max (round (real_of_int (bands ^ 2) * v / 600)) 1) 52"

section \<open>Concrete inputs\<close>

text \<open>
  Collaborators, settings and structures to run the definitions on: a potential table
  with 4 valence electrons for Si, 6 for O, 2 for Mg and 1 for any other element, a
  4x4x4 gamma grid, and an irreducible mesh of three points.
\<close>

definition valence_example :: "string \<Rightarrow> int" where
  "valence_example el = (if el = ''Si'' then 4 else if el = ''O'' then 6 else if el = ''Mg'' then 2 else 1)"

definition example_external :: external where
  "example_external =
     \<lparr>get_sorted_structure = (\<lambda>st. st),
      get_potcar_symbols = (\<lambda>st. remdups (species st)),
      Potcar = (\<lambda>symbols func. map (\<lambda>el. \<lparr>element = el, nelectrons = valence_example el\<rparr>) symbols),
      automatic_gamma_density = (\<lambda>st dens. \<lparr>comment = ''gamma'', style = ''Gamma'', num_kpts = 0,
                                   kpts = [[4, 4, 4]], kpts_weights = []\<rparr>),
      automatic_density = (\<lambda>st n. \<lparr>comment = ''auto'', style = ''Gamma'', num_kpts = 0,
                                   kpts = [[2, 2, 2]], kpts_weights = []\<rparr>),
      get_ir_reciprocal_mesh = (\<lambda>st mesh. [([0, 0, 0], 1), ([1/2, 0, 0], 4), ([1/2, 1/2, 0], 3)])\<rparr>"

definition si_cell :: Structure where
  "si_cell = \<lparr>species = [''Si''], volume = 120, reciprocal_volume = 2,
              cbm = [1/2, 0, 1/2], vbm = [0, 0, 0]\<rparr>"

text \<open>A cell of four atoms and three elements, with an odd number of valence electrons.\<close>

definition sio2h_cell :: Structure where
  "sio2h_cell = \<lparr>species = [''Si'', ''O'', ''O'', ''H''], volume = 150, reciprocal_volume = 8 / 5,
                 cbm = [0, 0, 0], vbm = [0, 0, 0]\<rparr>"

text \<open>
  The silicon cell with the volume 333.3333333333333, the double next below 1000/3:
  nine times it is not a double and rounds to 3000.
\<close>

definition si_cell_third :: Structure where
  "si_cell_third = \<lparr>species = [''Si''], volume = 5864062014805333 / 17592186044416,
                    reciprocal_volume = 2, cbm = [1/2, 0, 1/2], vbm = [0, 0, 0]\<rparr>"

definition mg_cell :: Structure where
  "mg_cell = \<lparr>species = replicate 29 ''Mg'', volume = 1200, reciprocal_volume = 1/5,
              cbm = [0, 0, 0], vbm = [0, 0, 0]\<rparr>"

definition example_base :: inputset where
  "example_base =
     \<lparr>struct = mg_cell,
      incar_settings = [''ALGO'' \<mapsto> StrV ''Normal'', ''NELM'' \<mapsto> IntV 100],
      kpoints_settings = [''grid_density'' \<mapsto> 500, ''kpoints_density'' \<mapsto> 10],
      functional = ''PBE'', sort_structure = True, nomega_max = None\<rparr>"

text \<open>
  A table of tests with an entry of the method \<^verbatim>\<open>'kpoint_grid'\<close>; the tables of the
  three classes have none.
\<close>

definition example_tests :: catalog where
  "example_tests = [''KPOINTS'' \<mapsto>
     \<lparr>test_range = [500, 1000], test_method = ''kpoint_grid'', control = ''gap''\<rparr>]"

section \<open>Auxiliary facts\<close>

subsection \<open>Rounding\<close>

lemma expo_bounds:
  assumes "0 < x"
  shows "2 powi (expo x) \<le> x \<and> x < 2 powi (expo x + 1)"
proof (cases "1 \<le> x")
  case True
  define n where "n = \<lfloor>x\<rfloor>"
  have n: "1 \<le> n" using True by (simp add: n_def)
  then have n0: "0 < n" by simp
  have k: "1 \<le> bitlen n" using n0 bitlen_eq_zero_iff[of n] bitlen_nonneg[of n] by linarith
  from bitlen_bounds[OF n0] have lo: "2 ^ nat (bitlen n - 1) \<le> n" and hi: "n < 2 ^ nat (bitlen n)" by auto
  have e: "expo x = bitlen n - 1" using True by (simp add: expo_def n_def)
  have "(2::real) powi (bitlen n - 1) = 2 ^ nat (bitlen n - 1)"
    using k by (simp add: power_int_def)
  also have "\<dots> \<le> of_int n" using lo by (metis of_int_le_iff of_int_numeral of_int_power)
  also have "\<dots> \<le> x" by (simp add: n_def)
  finally have 1: "2 powi (expo x) \<le> x" by (simp add: e)
  have "n + 1 \<le> 2 ^ nat (bitlen n)" using hi by simp
  then have "of_int (n + 1) \<le> (2::real) ^ nat (bitlen n)"
    by (metis of_int_le_iff of_int_numeral of_int_power)
  moreover have "x < of_int (n + 1)" by (simp add: n_def)
  moreover have "(2::real) powi (bitlen n - 1 + 1) = 2 ^ nat (bitlen n)"
    using k by (simp add: power_int_def)
  ultimately have 2: "x < 2 powi (expo x + 1)" by (simp add: e)
  show ?thesis using 1 2 by simp
next
  case False
  then have x1: "x < 1" by simp
  define n where "n = \<lceil>1 / x\<rceil>"
  define m where "m = n - 1"
  have "1 < 1 / x" using assms x1 by simp
  then have n: "2 \<le> n" unfolding n_def by linarith
  then have m0: "0 < m" by (simp add: m_def)
  have k: "1 \<le> bitlen m" using m0 bitlen_eq_zero_iff[of m] bitlen_nonneg[of m] by linarith
  from bitlen_bounds[OF m0] have lo: "2 ^ nat (bitlen m - 1) \<le> m" and hi: "m < 2 ^ nat (bitlen m)" by auto
  have e: "expo x = - bitlen m" using False by (simp add: expo_def n_def m_def)
  have inv_le: "1 / x \<le> of_int n" by (simp add: n_def)
  have inv_gt: "of_int m < 1 / x" unfolding m_def n_def by linarith
  have "of_int n \<le> (2::real) ^ nat (bitlen m)"
  proof -
    have "n \<le> 2 ^ nat (bitlen m)" using hi by (simp add: m_def)
    then show ?thesis by (metis of_int_le_iff of_int_numeral of_int_power)
  qed
  then have "1 / x \<le> 2 ^ nat (bitlen m)" using inv_le by linarith
  then have "1 / 2 ^ nat (bitlen m) \<le> x"
    using assms by (simp add: field_simps)
  moreover have "(2::real) powi (- bitlen m) = 1 / 2 ^ nat (bitlen m)"
    using k by (simp add: power_int_def field_simps)
  ultimately have 1: "2 powi (expo x) \<le> x" by (simp add: e)
  have "(2::real) ^ nat (bitlen m - 1) \<le> of_int m"
    using lo by (metis of_int_le_iff of_int_numeral of_int_power)
  then have "2 ^ nat (bitlen m - 1) < 1 / x" using inv_gt by linarith
  then have "x < 1 / 2 ^ nat (bitlen m - 1)"
    using assms by (simp add: field_simps)
  moreover have "(2::real) powi (- bitlen m + 1) = 1 / 2 ^ nat (bitlen m - 1)"
  proof (cases "bitlen m = 1")
    case True
    then show ?thesis by simp
  next
    case False
    then have "- bitlen m + 1 < 0" using k by simp
    moreover have "nat (- (- bitlen m + 1)) = nat (bitlen m - 1)" by simp
    ultimately show ?thesis by (simp add: power_int_def field_simps)
  qed
  ultimately have 2: "x < 2 powi (expo x + 1)" by (simp add: e)
  show ?thesis using 1 2 by simp
qed


lemma round_even_of_int [simp]: "round_even (of_int n) = n"
  by (simp add: round_even_def)

lemma round_even_numeral [simp]: "round_even (numeral k) = numeral k"
  using round_even_of_int[of "numeral k"] by simp

lemma round_even_zero [simp]: "round_even 0 = 0"
  using round_even_of_int[of 0] by simp

lemma round_even_range: "\<lfloor>x\<rfloor> \<le> round_even x \<and> round_even x \<le> \<lfloor>x\<rfloor> + 1"
  by (simp add: round_even_def Let_def)

lemma round_even_mono:
  assumes "x \<le> y"
  shows "round_even x \<le> round_even y"
proof (cases "\<lfloor>x\<rfloor> = \<lfloor>y\<rfloor>")
  case True
  have "x - of_int \<lfloor>x\<rfloor> \<le> y - of_int \<lfloor>x\<rfloor>" using assms by simp
  then show ?thesis using True by (auto simp: round_even_def Let_def)
next
  case False
  then have "\<lfloor>x\<rfloor> + 1 \<le> \<lfloor>y\<rfloor>" using floor_mono[OF assms] by linarith
  then show ?thesis using round_even_range[of x] round_even_range[of y] by linarith
qed

lemma expo_mono:
  assumes "0 < x" and "x \<le> y"
  shows "expo x \<le> expo y"
proof (rule ccontr)
  assume "\<not> expo x \<le> expo y"
  then have "expo y + 1 \<le> expo x" by simp
  then have "(2::real) powi (expo y + 1) \<le> 2 powi (expo x)"
    by (intro power_int_increasing) simp_all
  moreover have "2 powi (expo x) \<le> x" using expo_bounds[OF assms(1)] by simp
  moreover have "y < 2 powi (expo y + 1)" using expo_bounds[of y] assms by simp
  ultimately show False using assms(2) by linarith
qed

lemma ulp_pos [simp]: "0 < ulp x"
  by (simp add: ulp_def)

lemma ulp_nonneg [simp]: "0 \<le> ulp x"
  by (simp add: ulp_def)

lemma fl_pos_eq: "0 < x \<Longrightarrow> fl x = of_int (round_even (x / ulp x)) * ulp x"
  by (simp add: fl_def)

lemma ulp_times: "ulp x * 2 ^ 52 = 2 powi (max (expo x) (- 1022))"
proof -
  have "(2::real) powi (max (expo x) (- 1022)) = 2 powi ((max (expo x) (- 1022) - 52) + 52)" by simp
  also have "\<dots> = 2 powi (max (expo x) (- 1022) - 52) * 2 powi 52"
    by (subst power_int_add) simp_all
  finally show ?thesis by (simp add: ulp_def)
qed

lemma fl_upper:
  assumes "0 < x"
  shows "fl x \<le> 2 powi (max (expo x) (- 1022) + 1)"
proof -
  let ?E = "max (expo x) (- 1022)"
  have "x < 2 powi (expo x + 1)" using expo_bounds[OF assms] by simp
  also have "\<dots> \<le> 2 powi (?E + 1)" by (intro power_int_increasing) simp_all
  also have "\<dots> = ulp x * 2 ^ 53"
  proof -
    have "(2::real) powi (?E + 1) = 2 powi ?E * 2" by (subst power_int_add) simp_all
    then show ?thesis using ulp_times[of x] by simp
  qed
  finally have "x / ulp x \<le> 2 ^ 53" by (simp add: field_simps)
  then have "round_even (x / ulp x) \<le> round_even (of_int (2 ^ 53))"
    by (intro round_even_mono) simp
  then have "round_even (x / ulp x) \<le> 2 ^ 53" by simp
  then have "real_of_int (round_even (x / ulp x)) \<le> 2 ^ 53"
    by (metis of_int_le_iff of_int_numeral of_int_power)
  then have "fl x \<le> 2 ^ 53 * ulp x"
    using assms by (simp add: fl_pos_eq)
  also have "\<dots> = 2 powi (?E + 1)"
  proof -
    have "(2::real) powi (?E + 1) = 2 powi ?E * 2" by (subst power_int_add) simp_all
    then show ?thesis using ulp_times[of x] by simp
  qed
  finally show ?thesis .
qed

lemma fl_lower:
  assumes "0 < x" and "- 1022 \<le> expo x"
  shows "2 powi (expo x) \<le> fl x"
proof -
  have E: "max (expo x) (- 1022) = expo x" using assms(2) by simp
  have "ulp x * 2 ^ 52 \<le> x" using expo_bounds[OF assms(1)] ulp_times[of x] E by simp
  then have "of_int (2 ^ 52) \<le> x / ulp x" by (simp add: field_simps)
  then have "round_even (of_int (2 ^ 52)) \<le> round_even (x / ulp x)"
    by (rule round_even_mono)
  then have "2 ^ 52 \<le> round_even (x / ulp x)" by simp
  then have "(2::real) ^ 52 \<le> real_of_int (round_even (x / ulp x))"
    by (metis of_int_le_iff of_int_numeral of_int_power)
  then have "2 ^ 52 * ulp x \<le> fl x"
    using assms by (simp add: fl_pos_eq)
  then show ?thesis using ulp_times[of x] E by (simp add: mult.commute)
qed

lemma fl_nonneg: "0 \<le> x \<Longrightarrow> 0 \<le> fl x"
proof -
  assume "0 \<le> x"
  show ?thesis
  proof (cases "x = 0")
    case True then show ?thesis by (simp add: fl_def)
  next
    case False
    then have x: "0 < x" using \<open>0 \<le> x\<close> by simp
    then have "0 \<le> x / ulp x" by (intro divide_nonneg_pos) simp_all
    then have "round_even (of_int 0) \<le> round_even (x / ulp x)"
      by (intro round_even_mono) simp
    then have "0 \<le> round_even (x / ulp x)" by simp
    then have "0 \<le> real_of_int (round_even (x / ulp x)) * ulp x"
      by (intro mult_nonneg_nonneg) simp_all
    then show ?thesis using x by (simp add: fl_pos_eq)
  qed
qed

lemma fl_mono:
  assumes "0 \<le> x" and "x \<le> y"
  shows "fl x \<le> fl y"
proof (cases "x = 0")
  case True
  then show ?thesis using fl_nonneg[of y] assms by (simp add: fl_def)
next
  case False
  then have x: "0 < x" using assms by simp
  then have y: "0 < y" using assms by simp
  let ?Ex = "max (expo x) (- 1022)" and ?Ey = "max (expo y) (- 1022)"
  have le: "?Ex \<le> ?Ey" using expo_mono[OF x assms(2)] by simp
  show ?thesis
  proof (cases "?Ex = ?Ey")
    case True
    then have u: "ulp x = ulp y" by (simp add: ulp_def)
    have "x / ulp y \<le> y / ulp y" using assms by (intro divide_right_mono) simp_all
    then have "round_even (x / ulp y) \<le> round_even (y / ulp y)" by (rule round_even_mono)
    then show ?thesis using x y u by (simp add: fl_pos_eq)
  next
    case False
    then have lt: "?Ex + 1 \<le> ?Ey" using le by simp
    then have ny: "- 1022 \<le> expo y" and Ey: "?Ey = expo y" by auto
    have "fl x \<le> 2 powi (?Ex + 1)" by (rule fl_upper[OF x])
    also have "\<dots> \<le> 2 powi ?Ey" using lt by (intro power_int_increasing) simp_all
    also have "\<dots> \<le> fl y" using fl_lower[OF y ny] Ey by simp
    finally show ?thesis .
  qed
qed

lemma fl_of_int:
  assumes "0 \<le> k" and "k \<le> 2 ^ 53"
  shows "fl (of_int k) = of_int k"
proof (cases "k = 0")
  case True
  then show ?thesis by (simp add: fl_def)
next
  case False
  then have k: "1 \<le> k" using assms by simp
  let ?x = "real_of_int k"
  have x: "0 < ?x" using k by simp
  have kr: "?x \<le> 2 ^ 53" using assms(2) by (metis of_int_le_iff of_int_numeral of_int_power)
  have e0: "0 \<le> expo ?x"
  proof (rule ccontr)
    assume "\<not> 0 \<le> expo ?x"
    then have "expo ?x + 1 \<le> 0" by simp
    then have "(2::real) powi (expo ?x + 1) \<le> 2 powi 0" by (intro power_int_increasing) simp_all
    then show False using expo_bounds[OF x] k by simp
  qed
  have e53: "expo ?x \<le> 53"
  proof (rule ccontr)
    assume "\<not> expo ?x \<le> 53"
    then have "54 \<le> expo ?x" by simp
    then have "(2::real) powi 54 \<le> 2 powi (expo ?x)" by (intro power_int_increasing) simp_all
    then show False using expo_bounds[OF x] kr by simp
  qed
  have E: "max (expo ?x) (- 1022) = expo ?x" using e0 by simp
  have "\<exists>j. ?x / ulp ?x = of_int j"
  proof (cases "expo ?x = 53")
    case True
    then have "(2::real) ^ 53 \<le> ?x" using expo_bounds[OF x] by simp
    then have "?x = 2 ^ 53" using kr by simp
    moreover have "ulp ?x = 2" using True by (simp add: ulp_def)
    ultimately have "?x / ulp ?x = of_int (2 ^ 52)" by simp
    then show ?thesis by blast
  next
    case False
    then have le52: "expo ?x \<le> 52" using e53 by simp
    have "ulp ?x * 2 powi (52 - expo ?x) = 2 powi ((expo ?x - 52) + (52 - expo ?x))"
      unfolding ulp_def E by (subst power_int_add) simp_all
    then have "ulp ?x * 2 powi (52 - expo ?x) = 1" by simp
    then have "?x * 2 powi (52 - expo ?x) * ulp ?x = ?x"
      by (simp add: mult.assoc mult.commute[of "2 powi (52 - expo ?x)"])
    then have "?x / ulp ?x = ?x * 2 powi (52 - expo ?x)"
      using ulp_pos[of ?x] by (metis nonzero_mult_div_cancel_right less_irrefl)
    also have "\<dots> = ?x * 2 ^ nat (52 - expo ?x)" using le52 by (simp add: power_int_def)
    also have "\<dots> = of_int (k * 2 ^ nat (52 - expo ?x))" by simp
    finally show ?thesis by blast
  qed
  then obtain j where j: "?x / ulp ?x = of_int j" by blast
  have "fl ?x = of_int (round_even (?x / ulp ?x)) * ulp ?x" by (rule fl_pos_eq[OF x])
  also have "\<dots> = of_int j * ulp ?x" by (simp add: j)
  also have "\<dots> = (?x / ulp ?x) * ulp ?x" by (simp add: j)
  also have "\<dots> = ?x" using ulp_pos[of ?x] by (simp add: less_imp_neq [THEN not_sym])
  finally show ?thesis .
qed

lemma double_max_bounds:
  "double_max < 2 powi 1024" "(2::real) powi 1023 \<le> double_max"
proof -
  define P :: real where "P = 2 ^ 971"
  have P: "0 < P" by (simp add: P_def)
  have a: "(2::real) powi 1024 = 2 ^ 53 * P"
    unfolding P_def by (simp only: power_int_numeral power_add [symmetric]) simp
  have b: "(2::real) powi 1023 = 2 ^ 52 * P"
    unfolding P_def by (simp only: power_int_numeral power_add [symmetric]) simp
  have dm: "double_max = (2 ^ 53 - 1) * P" by (simp only: double_max_def P_def)
  show "double_max < 2 powi 1024" unfolding a dm using P by (intro mult_strict_right_mono) simp_all
  show "(2::real) powi 1023 \<le> double_max" unfolding b dm using P by (intro mult_right_mono) simp_all
qed

lemma fl_le_double_max:
  assumes "0 \<le> x" and "x \<le> double_max"
  shows "fl x \<le> double_max"
proof (cases "x = 0")
  case True
  have "0 \<le> double_max" unfolding double_max_def by (intro mult_nonneg_nonneg) simp_all
  then show ?thesis using True by (simp add: fl_def)
next
  case False
  then have x: "0 < x" using assms by simp
  have e: "expo x \<le> 1023"
  proof (rule ccontr)
    assume "\<not> expo x \<le> 1023"
    then have "1024 \<le> expo x" by simp
    then have "(2::real) powi 1024 \<le> 2 powi (expo x)" by (intro power_int_increasing) simp_all
    then show False using expo_bounds[OF x] assms(2) double_max_bounds(1) by linarith
  qed
  show ?thesis
  proof (cases "expo x = 1023")
    case True
    define P :: real where "P = 2 ^ 971"
    have P: "0 < P" by (simp add: P_def)
    have m: "max (1023::int) (- 1022) - 52 = 971" by simp
    have u: "ulp x = P" unfolding ulp_def True m P_def by (rule power_int_numeral)
    have dm: "double_max = (2 ^ 53 - 1) * P" by (simp only: double_max_def P_def)
    have "x / P \<le> (2 ^ 53 - 1)"
      using assms(2) P unfolding dm by (simp add: pos_divide_le_eq)
    then have "x / P \<le> of_int (2 ^ 53 - 1)" by simp
    then have "round_even (x / P) \<le> round_even (of_int (2 ^ 53 - 1))"
      by (rule round_even_mono)
    then have "round_even (x / P) \<le> 2 ^ 53 - 1" by (simp only: round_even_of_int)
    then have "real_of_int (round_even (x / P)) \<le> of_int (2 ^ 53 - 1)"
      by (simp only: of_int_le_iff)
    then have "real_of_int (round_even (x / P)) \<le> 2 ^ 53 - 1" by simp
    then have "real_of_int (round_even (x / P)) * P \<le> (2 ^ 53 - 1) * P"
      using P by (intro mult_right_mono) simp_all
    then show ?thesis using x unfolding dm by (simp only: fl_pos_eq u)
  next
    case False
    then have "max (expo x) (- 1022) + 1 \<le> 1023" using e by simp
    then have "(2::real) powi (max (expo x) (- 1022) + 1) \<le> 2 powi 1023"
      by (intro power_int_increasing) simp_all
    then show ?thesis using fl_upper[OF x] double_max_bounds(2) by linarith
  qed
qed

subsection \<open>The input sets\<close>

lemma py_int_nonneg: "0 \<le> x \<Longrightarrow> py_int x = \<lfloor>x\<rfloor>"
  by (simp add: py_int_def)

lemma py_int_mono: "x \<le> y \<Longrightarrow> py_int x \<le> py_int y"
  unfolding py_int_def
  by (smt (verit) ceiling_mono floor_mono floor_le_ceiling ceiling_le_zero zero_le_floor)

lemma lookup_species_total:
  "\<forall>el\<in>set els. tab el \<noteq> None \<Longrightarrow> lookup_species tab els = Inr (map (\<lambda>el. the (tab el)) els)"
  by (induction els) (auto simp: getitem_def)

lemmas example_defs =
  get_potcar_def example_external_def example_base_def valence_example_def getitem_def py_int_def

lemma si_bands: "get_bands example_external example_base si_cell = Inr 3"
  by (simp add: get_bands_def get_electrons_def si_cell_def example_defs)

lemma mg_bands: "get_bands example_external example_base mg_cell = Inr 58"
  by (simp add: get_bands_def get_electrons_def mg_cell_def example_defs eval_nat_numeral)

lemma float_round_finite:
  assumes "0 \<le> x" and "x \<le> double_max"
  shows "float_round x = Finite (fl x)"
proof -
  have "fl x \<le> double_max" by (rule fl_le_double_max[OF assms])
  moreover have "0 \<le> fl x" by (rule fl_nonneg[OF assms(1)])
  moreover have "0 \<le> double_max" using assms by linarith
  ultimately show ?thesis by (simp add: float_round_def Let_def)
qed

lemma two53_le_double_max: "2 ^ 53 \<le> double_max"
proof -
  have "(2::real) ^ 53 = 2 powi 53" by simp
  also have "\<dots> \<le> 2 powi 1023" by (intro power_int_increasing) simp_all
  also have "\<dots> \<le> double_max" by (rule double_max_bounds(2))
  finally show ?thesis .
qed

lemma float_of_int_exact:
  assumes "0 \<le> k" and "k \<le> 2 ^ 53"
  shows "float_of_int k = Inr (of_int k)"
proof -
  have "real_of_int k \<le> 2 ^ 53" using assms(2) by (metis of_int_le_iff of_int_numeral of_int_power)
  then have "real_of_int k \<le> double_max" using two53_le_double_max by linarith
  then have "float_round (of_int k) = Finite (fl (of_int k))"
    using assms(1) by (intro float_round_finite) simp_all
  then show ?thesis using fl_of_int[OF assms] by (simp add: float_of_int_def)
qed

lemma fl_numeral: "numeral k \<le> (2::int) ^ 53 \<Longrightarrow> fl (numeral k) = numeral k"
  using fl_of_int[of "numeral k"] by simp

text \<open>The parallel factor of a computation that does not overflow.\<close>

lemma get_npar_value:
  assumes "get_bands ext self st = Inr b" and "0 \<le> b" and "b \<le> 2 ^ 26"
    and "0 \<le> volume st" and "real_of_int (b ^ 2) * volume st \<le> double_max"
  shows "get_npar ext self st =
           Inr (min (max \<lfloor>fl (fl (real_of_int (b ^ 2) * volume st) / 600)\<rfloor> 1) 52)"
proof -
  let ?p = "real_of_int (b ^ 2) * volume st"
  have "b ^ 2 \<le> (2 ^ 26) ^ 2" using assms(2,3) by (intro power_mono) simp_all
  then have b2: "b ^ 2 \<le> 2 ^ 53" by simp
  have c: "float_of_int (b ^ 2) = Inr (of_int (b ^ 2))"
    by (rule float_of_int_exact[OF _ b2]) simp
  have p0: "0 \<le> ?p" using assms(4) by (intro mult_nonneg_nonneg) simp_all
  have m: "float_mul (of_int (b ^ 2)) (volume st) = Finite (fl ?p)"
    unfolding float_mul_def by (rule float_round_finite[OF p0 assms(5)])
  have f0: "0 \<le> fl ?p" by (rule fl_nonneg[OF p0])
  have fm: "fl ?p \<le> double_max" by (rule fl_le_double_max[OF p0 assms(5)])
  have q0: "0 \<le> fl ?p / 600" using f0 by simp
  have "fl ?p / 600 \<le> fl ?p" using f0 by simp
  then have qm: "fl ?p / 600 \<le> double_max" using fm by linarith
  have d: "float_div (Finite (fl ?p)) 600 = Finite (fl (fl ?p / 600))"
    unfolding float_div_def using float_round_finite[OF q0 qm] by simp
  have "0 \<le> fl (fl ?p / 600)" by (rule fl_nonneg[OF q0])
  then have "py_int (fl (fl ?p / 600)) = \<lfloor>fl (fl ?p / 600)\<rfloor>" by (rule py_int_nonneg)
  then show ?thesis using assms(1) c m d by (simp add: get_npar_def int_of_float_def)
qed

text \<open>What a returned parallel factor was computed from.\<close>

lemma get_npar_returned:
  assumes "get_bands ext self st = Inr b" and "0 \<le> b" and "b \<le> 2 ^ 26"
    and "0 \<le> volume st" and "get_npar ext self st = Inr n"
  shows "n = min (max \<lfloor>fl (fl (real_of_int (b ^ 2) * volume st) / 600)\<rfloor> 1) 52"
proof -
  let ?p = "real_of_int (b ^ 2) * volume st"
  have "b ^ 2 \<le> (2 ^ 26) ^ 2" using assms(2,3) by (intro power_mono) simp_all
  then have b2: "b ^ 2 \<le> 2 ^ 53" by simp
  have c: "float_of_int (b ^ 2) = Inr (of_int (b ^ 2))"
    by (rule float_of_int_exact[OF _ b2]) simp
  have p0: "0 \<le> ?p" using assms(4) by (intro mult_nonneg_nonneg) simp_all
  have f0: "0 \<le> fl ?p" by (rule fl_nonneg[OF p0])
  have q0: "0 \<le> fl ?p / 600" using f0 by simp
  have r0: "0 \<le> fl (fl ?p / 600)" by (rule fl_nonneg[OF q0])
  have nofin: "float_mul (of_int (b ^ 2)) (volume st) = Finite (fl ?p)"
  proof (rule ccontr)
    assume "float_mul (of_int (b ^ 2)) (volume st) \<noteq> Finite (fl ?p)"
    then have "float_mul (of_int (b ^ 2)) (volume st) = PosInf"
      using f0 by (auto simp: float_mul_def float_round_def Let_def split: if_splits)
    then show False using assms(1,5) c
      by (simp add: get_npar_def float_div_def int_of_float_def)
  qed
  have "float_div (Finite (fl ?p)) 600 = Finite (fl (fl ?p / 600))"
  proof (rule ccontr)
    assume "float_div (Finite (fl ?p)) 600 \<noteq> Finite (fl (fl ?p / 600))"
    then have "float_div (Finite (fl ?p)) 600 = PosInf"
      using r0 by (auto simp: float_div_def float_round_def Let_def split: if_splits)
    then show False using assms(1,5) c nofin
      by (simp add: get_npar_def int_of_float_def)
  qed
  then show ?thesis using assms(1,5) c nofin r0
    by (simp add: get_npar_def int_of_float_def py_int_nonneg)
qed

lemma get_npar_58_1200:
  assumes "get_bands ext self st = Inr 58" and "volume st = 1200"
  shows "get_npar ext self st = Inr 52"
proof -
  have dm: "real_of_int (58 ^ 2) * volume st \<le> double_max"
    using two53_le_double_max assms(2) by simp
  have "fl (fl (real_of_int (58 ^ 2) * volume st) / 600) = 6728"
    using assms(2) by (simp add: fl_numeral)
  then show ?thesis
    using get_npar_value[OF assms(1) _ _ _ dm] assms(2) by simp
qed

lemma mg_npar: "get_npar example_external example_base mg_cell = Inr 52"
  by (rule get_npar_58_1200[OF mg_bands]) (simp add: mg_cell_def)

lemma fl_9_5: "fl (9 / 5) = 8106479329266893 / 4503599627370496"
  by code_simp

lemma si_npar: "get_npar example_external example_base si_cell = Inr 1"
proof -
  have v: "volume si_cell = 120" by (simp add: si_cell_def)
  have dm: "real_of_int (3 ^ 2) * volume si_cell \<le> double_max"
    using two53_le_double_max v by simp
  have a: "fl 1080 = 1080" by (rule fl_numeral) simp
  have q: "fl (fl (real_of_int (3 ^ 2) * volume si_cell) / 600) = 8106479329266893 / 4503599627370496"
    unfolding v by (simp add: a fl_9_5)
  have g: "get_npar example_external example_base si_cell =
             Inr (min (max \<lfloor>fl (fl (real_of_int (3 ^ 2) * volume si_cell) / 600)\<rfloor> 1) 52)"
    by (rule get_npar_value[OF si_bands _ _ _ dm]) (simp_all add: v)
  show ?thesis unfolding g q by simp
qed

lemma si_third_bands: "get_bands example_external example_base si_cell_third = Inr 3"
  by (simp add: get_bands_def get_electrons_def si_cell_third_def example_defs)

lemma fl_third: "fl (9 * (5864062014805333 / 17592186044416)) = 3000"
  by code_simp

lemma si_third_npar: "get_npar example_external example_base si_cell_third = Inr 5"
proof -
  have v: "volume si_cell_third = 5864062014805333 / 17592186044416" by (simp add: si_cell_third_def)
  have "real_of_int (3 ^ 2) * volume si_cell_third \<le> 2 ^ 53" unfolding v by simp
  then have dm: "real_of_int (3 ^ 2) * volume si_cell_third \<le> double_max"
    using two53_le_double_max by linarith
  have p: "fl (real_of_int (3 ^ 2) * volume si_cell_third) = 3000"
    unfolding v using fl_third by simp
  have a: "fl 5 = 5" by (rule fl_numeral) simp
  have q: "fl (fl (real_of_int (3 ^ 2) * volume si_cell_third) / 600) = 5"
    unfolding p by (simp add: a)
  have g: "get_npar example_external example_base si_cell_third =
             Inr (min (max \<lfloor>fl (fl (real_of_int (3 ^ 2) * volume si_cell_third) / 600)\<rfloor> 1) 52)"
    by (rule get_npar_value[OF si_third_bands _ _ _ dm]) (simp_all add: v)
  show ?thesis unfolding g q by simp
qed

lemma valence_list_dom:
  "valence_list acc ps el \<noteq> None \<longleftrightarrow> acc el \<noteq> None \<or> el \<in> element ` set ps"
  by (induction ps arbitrary: acc) auto

lemma valence_list_consistent:
  assumes "\<forall>p\<in>set ps. nelectrons p = zval (element p)"
    and "\<forall>el n. acc el = Some n \<longrightarrow> n = zval el"
    and "valence_list acc ps el = Some n"
  shows "n = zval el"
  using assms
proof (induction ps arbitrary: acc)
  case Nil
  then show ?case by simp
next
  case (Cons a ps)
  have "\<forall>el n. (acc(element a \<mapsto> nelectrons a)) el = Some n \<longrightarrow> n = zval el"
    using Cons.prems(1,2) by simp
  moreover have "valence_list (acc(element a \<mapsto> nelectrons a)) ps el = Some n"
    using Cons.prems(3) by simp
  moreover have "\<forall>p\<in>set ps. nelectrons p = zval (element p)"
    using Cons.prems(1) by simp
  ultimately show ?case using Cons.IH by blast
qed


lemma get_bands_incar [simp]:
  "get_bands ext (self\<lparr>incar_settings := x\<rparr>) st = get_bands ext self st"
  by (simp add: get_bands_def get_electrons_def get_potcar_def)

lemma get_npar_incar [simp]:
  "get_npar ext (self\<lparr>incar_settings := x\<rparr>) st = get_npar ext self st"
  by (simp add: get_npar_def)

lemma get_bands_nomega_max [simp]:
  "get_bands ext (self\<lparr>nomega_max := x\<rparr>) st = get_bands ext self st"
  by (simp add: get_bands_def get_electrons_def get_potcar_def)

lemma get_npar_nomega_max [simp]:
  "get_npar ext (self\<lparr>nomega_max := x\<rparr>) st = get_npar ext self st"
  by (simp add: get_npar_def)



lemma struct_example_base: "struct example_base = mg_cell"
  by (simp add: example_base_def)

lemma all_tests_NBANDS:
  "all_tests TESTS_prep TESTS_diag TESTS_g0w0 ''NBANDS'' =
     Some \<lparr>test_range = [10, 20, 30], test_method = ''set_nbands'', control = ''gap''\<rparr>"
  by (simp add: all_tests_def TESTS_prep_def TESTS_diag_def TESTS_g0w0_def map_add_def)

lemma all_tests_NOMEGA:
  "all_tests TESTS_prep TESTS_diag TESTS_g0w0 ''NOMEGA'' =
     Some \<lparr>test_range = [80, 100, 120], test_method = ''set_nomega'', control = ''gap''\<rparr>"
  by (simp add: all_tests_def TESTS_prep_def TESTS_diag_def TESTS_g0w0_def map_add_def)

lemma all_tests_ENCUTGW:
  "all_tests TESTS_prep TESTS_diag TESTS_g0w0 ''ENCUTGW'' =
     Some \<lparr>test_range = [200, 300, 400], test_method = ''incar_settings'', control = ''gap''\<rparr>"
  by (simp add: all_tests_def TESTS_prep_def TESTS_diag_def TESTS_g0w0_def map_add_def)

lemma dom_all_tests:
  "dom (all_tests TESTS_prep TESTS_diag TESTS_g0w0) = {''NBANDS'', ''ENCUTGW'', ''NOMEGA''}"
  by (auto simp add: all_tests_def TESTS_prep_def TESTS_diag_def TESTS_g0w0_def)

lemma set_test_with_nbands:
  assumes "set_test_with tests ext self ((key, x) # rest) = (None, self')"
    and "tests key = Some entry" and "test_method entry = ''set_nbands''"
    and "get_npar ext self (struct self) = Inr npar"
  shows "\<exists>v. incar_settings self' ''NBANDS'' = Some (IntV v) \<and> npar dvd v"
  using assms
  by (auto simp add: set_test_with_def getitem_def Let_def split: option.splits sum.splits pyval.splits)

lemma set_test_with_nomega:
  assumes "set_test_with tests ext self ((key, x) # rest) = (None, self')"
    and "tests key = Some entry" and "test_method entry = ''set_nomega''"
    and "get_npar ext self (struct self) = Inr npar"
  shows "\<exists>v. incar_settings self' ''NOMEGA'' = Some (IntV v) \<and> npar dvd v"
  using assms
  by (auto simp add: set_test_with_def getitem_def Let_def split: option.splits sum.splits pyval.splits)

lemma set_gw_bands_multiple:
  assumes "set_gw_bands ext self factor = (None, self')"
    and "get_npar ext self (struct self) = Inr npar"
  shows "\<exists>v. incar_settings self' ''NBANDS'' = Some (IntV v) \<and> npar dvd v"
  using assms
  by (auto simp add: set_gw_bands_def Let_def split: sum.splits if_splits)

lemma set_gw_bands_frame:
  assumes "set_gw_bands ext self factor = (None, self')"
  shows "struct self' = struct self \<and> functional self' = functional self
         \<and> sort_structure self' = sort_structure self \<and> nomega_max self' = nomega_max self
         \<and> kpoints_settings self' = kpoints_settings self"
  using assms
  by (auto simp add: set_gw_bands_def Let_def split: sum.splits if_splits)

lemma get_npar_cong:
  "functional a = functional b \<Longrightarrow> sort_structure a = sort_structure b \<Longrightarrow> get_npar ext a st = get_npar ext b st"
  by (simp add: get_npar_def get_bands_def get_electrons_def get_potcar_def)

lemma G0W0_init_multiple:
  assumes "MPGWG0W0VaspInputSet ext base st func = Inr self'"
  shows "\<exists>npar v. get_npar ext self' (struct self') = Inr npar
           \<and> incar_settings self' ''NPAR'' = Some (IntV npar)
           \<and> incar_settings self' ''NOMEGA'' = Some (IntV v) \<and> npar dvd v"
proof -
  define s0 where "s0 = base\<lparr>struct := st, functional := func\<rparr>"
  define s1 where "s1 = s0\<lparr>incar_settings := incar_settings s0 ++
                        [''ALGO'' \<mapsto> StrV ''GW0'', ''ENCUTGW'' \<mapsto> IntV 250,
                         ''LWAVE'' \<mapsto> StrV ''FALSE'', ''NELM'' \<mapsto> IntV 1]\<rparr>"
  have unf: "MPGWG0W0VaspInputSet ext base st func =
     (case get_npar ext s0 st of
        Inl e \<Rightarrow> Inl e
      | Inr npar \<Rightarrow>
          (case get_kpoints ext s1 st True of
                Inl e \<Rightarrow> Inl e
              | Inr k \<Rightarrow>
                  (case kpts k of
                     [] \<Rightarrow> Inl IndexError
                   | [] # _ \<Rightarrow> Inl IndexError
                   | (k00 # _) # _ \<Rightarrow>
                        (case set_gw_bands ext (s1\<lparr>nomega_max := Some (25 * k00)\<rparr>) 15 of
                             (Some e, _) \<Rightarrow> Inl e
                           | (None, s3) \<Rightarrow>
                               Inr (s3\<lparr>incar_settings := incar_settings s3 ++
                                      [''NPAR'' \<mapsto> IntV npar,
                                       ''NOMEGA'' \<mapsto> IntV (npar * py_int (25 * k00 / real_of_int npar)),
                                       ''LWANNIER90_RUN'' \<mapsto> StrV ''.TRUE.'',
                                       ''LWRITE_MMN_AMN'' \<mapsto> StrV ''.TRUE.'']\<rparr>)))))"
    unfolding MPGWG0W0VaspInputSet_def Let_def s0_def s1_def ..
  show ?thesis
  proof (cases "get_npar ext s0 st")
    case (Inl e)
    then show ?thesis using assms unfolding unf by simp
  next
    case np: (Inr npar)
    show ?thesis
    proof (cases "get_kpoints ext s1 st True")
      case (Inl e)
      then show ?thesis using assms np unfolding unf by simp
    next
      case k: (Inr k)
      show ?thesis
      proof (cases "kpts k")
        case Nil
        then show ?thesis using assms np k unfolding unf by simp
      next
        case (Cons row r2)
        show ?thesis
        proof (cases row)
          case Nil
          then show ?thesis using assms np k Cons unfolding unf by simp
        next
          case kk: (Cons k00 r1)
          obtain r s3 where g: "set_gw_bands ext (s1\<lparr>nomega_max := Some (25 * k00)\<rparr>) 15 = (r, s3)"
            by (cases "set_gw_bands ext (s1\<lparr>nomega_max := Some (25 * k00)\<rparr>) 15") auto
          show ?thesis
          proof (cases r)
            case (Some e)
            then show ?thesis using assms np k Cons kk g unfolding unf by simp
          next
            case None
            have res: "self' = s3\<lparr>incar_settings := incar_settings s3 ++
                                      [''NPAR'' \<mapsto> IntV npar,
                                       ''NOMEGA'' \<mapsto> IntV (npar * py_int (25 * k00 / real_of_int npar)),
                                       ''LWANNIER90_RUN'' \<mapsto> StrV ''.TRUE.'',
                                       ''LWRITE_MMN_AMN'' \<mapsto> StrV ''.TRUE.'']\<rparr>"
              using assms np k Cons kk g None unfolding unf by simp
            have fr: "struct s3 = st \<and> functional s3 = func \<and> sort_structure s3 = sort_structure base"
              using set_gw_bands_frame[OF g[unfolded None]] by (simp add: s1_def s0_def)
            have st': "struct self' = st" "functional self' = functional s0"
              "sort_structure self' = sort_structure s0"
              using fr by (simp_all add: res s0_def)
            have "get_npar ext self' (struct self') = get_npar ext s0 st"
              unfolding st'(1) by (rule get_npar_cong[OF st'(2,3)])
            then show ?thesis using np by (simp add: res)
          qed
        qed
      qed
    qed
  qed
qed

lemma npar_example_base: "get_npar example_external example_base (struct example_base) = Inr 52"
  by (simp add: struct_example_base mg_npar)

lemma bands_example_base: "get_bands example_external example_base (struct example_base) = Inr 58"
  by (simp add: struct_example_base mg_bands)

lemma set_test_example_nbands:
  "set_test_with (all_tests TESTS_prep TESTS_diag TESTS_g0w0) example_external example_base [(''NBANDS'', IntV 10)]
   = (None, example_base\<lparr>incar_settings := (incar_settings example_base)(''NBANDS'' \<mapsto> IntV 624)\<rparr>)"
  by (simp add: set_test_with_def getitem_def all_tests_NBANDS npar_example_base bands_example_base py_int_def)

lemma set_test_example_nomega:
  "set_test_with (all_tests TESTS_prep TESTS_diag TESTS_g0w0) example_external example_base [(''NOMEGA'', IntV 80)]
   = (None, example_base\<lparr>incar_settings := (incar_settings example_base)(''NOMEGA'' \<mapsto> IntV 52)\<rparr>)"
  by (simp add: set_test_with_def getitem_def all_tests_NOMEGA npar_example_base bands_example_base py_int_def)

lemma set_gw_bands_example:
  "set_gw_bands example_external example_base 15
   = (None, example_base\<lparr>incar_settings := (incar_settings example_base)(''NBANDS'' \<mapsto> IntV 884, ''ALGO'' \<mapsto> StrV ''fast'')\<rparr>)"
  by (simp add: set_gw_bands_def npar_example_base bands_example_base py_int_def)

lemma G0W0_example:
  "\<exists>self'. MPGWG0W0VaspInputSet example_external example_base mg_cell ''PBE'' = Inr self'
     \<and> incar_settings self' ''NOMEGA'' = Some (IntV 52) \<and> incar_settings self' ''NPAR'' = Some (IntV 52)"
proof -
  have eb: "example_base\<lparr>struct := mg_cell, functional := ''PBE''\<rparr> = example_base"
    by (simp add: example_base_def)
  have k: "get_kpoints example_external s mg_cell True = Inr \<lparr>comment = ''gamma'', style = ''Gamma'', num_kpts = 0,
                                   kpts = [[4, 4, 4]], kpts_weights = []\<rparr>" if "kpoints_settings s = kpoints_settings example_base" for s
    using that by (simp add: get_kpoints_def getitem_def example_base_def example_external_def)
  have g: "set_gw_bands example_external (example_base\<lparr>incar_settings := i, nomega_max := m\<rparr>) 15
     = (None, example_base\<lparr>incar_settings := i(''NBANDS'' \<mapsto> IntV 884, ''ALGO'' \<mapsto> StrV ''fast''), nomega_max := m\<rparr>)" for i m
    using npar_example_base bands_example_base
    by (simp add: set_gw_bands_def py_int_def struct_example_base)
  show ?thesis
    by (simp add: MPGWG0W0VaspInputSet_def eb mg_npar k g py_int_def)
qed

lemma set_test_with_unknown:
  "tests key = None \<Longrightarrow> set_test_with tests ext self ((key, x) # rest) = (Some KeyError, self)"
  by (simp add: set_test_with_def getitem_def)

lemma set_test_with_kpoint_grid:
  assumes "tests key = Some entry" and "test_method entry = ''kpoint_grid''"
  shows "snd (set_test_with tests ext self ((key, x) # rest)) = self"
    and "get_npar ext self (struct self) = Inr npar \<Longrightarrow>
         set_test_with tests ext self ((key, x) # rest) = (None, self)"
  using assms
  by (simp_all add: set_test_with_def getitem_def Let_def split: sum.splits)

lemma ir_loop_length:
  "ir_loop ks ka wa = (kr, wr) \<Longrightarrow> length kr = length ka + length ks \<and> length wr = length wa + length ks"
  by (induction ks ka wa rule: ir_loop.induct) auto

lemma ir_loop_eq: "ir_loop ks ka wa = (ka @ map fst ks, wa @ map snd ks)"
  by (induction ks ka wa rule: ir_loop.induct) auto

lemma lower_ceci: "lower ''ceci'' = ''ceci''"
  by (simp add: lower_def lower_char_def)

lemma data_init:
  "d_mode (data GWSpecs_init) = ''ceci''" "d_test (data GWSpecs_init) = False"
  "d_source (data GWSpecs_init) = ''mp-vasp''" "d_code (data GWSpecs_init) = ''VASP''"
  "d_functional (data GWSpecs_init) = ''PBE''"
  "errors GWSpecs_init = []" "warnings GWSpecs_init = []"
  by (simp_all add: GWSpecs_init_def)

lemma check_mode_fields:
  "data (check_mode self) = data self"
  "warnings (check_mode self) = warnings self"
  "errors (check_mode self) = errors self @
     (if lower (d_mode (data self)) \<in> {''input'', ''ceci'', ''fw''} then [] else [''unspecified mode''])"
  by (simp_all add: check_mode_def)

lemma check_code_fields:
  "data (check_code self) = data self"
  "warnings (check_code self) = warnings self @
     (if d_code (data self) = ''ABINIT'' \<and> d_test (data self)
      then [''no tests defined for ABINIT calculations''] else [])"
  "errors (check_code self) = errors self @
     (if d_code (data self) = ''VASP''
      then (if d_functional (data self) \<in> {''PBE'', ''LDA''} then []
            else [d_functional (data self) @ ''not defined for VASP yet''])
      else if d_code (data self) = ''ABINIT''
      then (if d_functional (data self) = ''PBE'' then []
            else [d_functional (data self) @ ''not defined for ABINIT yet''])
      else [''unknown code''])"
  by (simp_all add: check_code_def Let_def)

lemma check_source_fields:
  "data (check_source w self) = data self"
  "warnings (check_source w self) = warnings self"
  "errors (check_source w self) = errors self @
     (if d_source (data self) \<in> {''poscar'', ''mp-vasp''} \<or> files w (d_source (data self)) \<noteq> None
      then [] else [''no structures defined''])"
  by (simp_all add: check_source_def)

lemmas check_fields = check_mode_fields check_code_fields check_source_fields

lemma GWSpecs_test_object:
  "fst (snd (GWSpecs_test self w)) = check_source w (check_code (check_mode self))"
  by (simp add: GWSpecs_test_def Let_def)

lemma GWSpecs_test_appends:
  "\<exists>es ws. errors (fst (snd (GWSpecs_test self w))) = errors self @ es
         \<and> warnings (fst (snd (GWSpecs_test self w))) = warnings self @ ws"
  unfolding GWSpecs_test_object check_fields by simp

lemma GWSpecs_test_exits:
  assumes "errors self \<noteq> []"
  shows "fst (GWSpecs_test self w) = Some SystemExit"
    and "last (stdout (snd (snd (GWSpecs_test self w)))) = str_list (errors (fst (snd (GWSpecs_test self w))))"
proof -
  have "errors (check_source w (check_code (check_mode self))) \<noteq> []"
    unfolding check_fields using assms by simp
  then show "fst (GWSpecs_test self w) = Some SystemExit"
    and "last (stdout (snd (snd (GWSpecs_test self w)))) = str_list (errors (fst (snd (GWSpecs_test self w))))"
    by (simp_all add: GWSpecs_test_def Let_def)
qed

lemma str_int_1: "str_int 1 = ''1''"
  by (simp add: str_int_def digits.simps digit_char_def)

lemma GWSpecs_test_abinit_lda:
  "GWSpecs_test (GWSpecs_init\<lparr>data := (data GWSpecs_init)\<lparr>d_code := ''ABINIT'', d_functional := ''LDA''\<rparr>\<rparr>) w
   = (Some SystemExit,
      GWSpecs_init\<lparr>data := (data GWSpecs_init)\<lparr>d_code := ''ABINIT'', d_functional := ''LDA''\<rparr>,
                    errors := [''LDAnot defined for ABINIT yet'']\<rparr>,
      w\<lparr>stdout := stdout w @ [''1 error(s) found:'', str_list [''LDAnot defined for ABINIT yet'']]\<rparr>)"
proof -
  let ?s = "GWSpecs_init\<lparr>data := (data GWSpecs_init)\<lparr>d_code := ''ABINIT'', d_functional := ''LDA''\<rparr>\<rparr>"
  have 1: "check_mode ?s = ?s" by (simp add: check_mode_def data_init lower_ceci)
  have 2: "check_code ?s = ?s\<lparr>errors := [''LDAnot defined for ABINIT yet'']\<rparr>"
    by (simp add: check_code_def data_init)
  have 3: "check_source w (?s\<lparr>errors := [''LDAnot defined for ABINIT yet'']\<rparr>)
           = ?s\<lparr>errors := [''LDAnot defined for ABINIT yet'']\<rparr>"
    by (simp add: check_source_def data_init)
  show ?thesis by (simp add: GWSpecs_test_def 1 2 3 str_int_1)
qed

lemma contains_ceci: "contains ''ceci'' ''ceci''" and contains_abinit: "contains ''ABINIT'' ''ABINIT''"
  by simp_all

lemma GWSpecs_test_abinit_test:
  "GWSpecs_test (GWSpecs_init\<lparr>data := (data GWSpecs_init)\<lparr>d_code := ''ABINIT'', d_test := True\<rparr>\<rparr>) w
   = (None,
      GWSpecs_init\<lparr>data := (data GWSpecs_init)\<lparr>d_code := ''ABINIT'', d_test := True\<rparr>,
                    warnings := [''no tests defined for ABINIT calculations'']\<rparr>,
      w\<lparr>stdout := stdout w @ [''1 warning(s) found:'', str_list [''no tests defined for ABINIT calculations'']],
         files := (files w)(''job_collection'' \<mapsto> ''module load abinit \<newline>'')\<rparr>)"
proof -
  let ?s = "GWSpecs_init\<lparr>data := (data GWSpecs_init)\<lparr>d_code := ''ABINIT'', d_test := True\<rparr>\<rparr>"
  let ?s' = "?s\<lparr>warnings := [''no tests defined for ABINIT calculations'']\<rparr>"
  have 1: "check_mode ?s = ?s" by (simp add: check_mode_def data_init lower_ceci)
  have 2: "check_code ?s = ?s'"
    by (simp add: check_code_def data_init)
  have 3: "check_source w ?s' = ?s'"
    by (simp add: check_source_def data_init)
  have 4: "reset_job_collection ?s' w' = w'\<lparr>files := (files w')(''job_collection'' \<mapsto> ''module load abinit \<newline>'')\<rparr>" for w'
    by (simp add: reset_job_collection_def data_init)
  show ?thesis by (simp add: GWSpecs_test_def 1 2 3 4 str_int_1 data_init)
qed

lemma strip_loop_eq:
  "strip_loop cs (a, b) = (filter (\<lambda>c. c \<notin> set cs) a, filter (\<lambda>c. c \<notin> set cs) b)"
proof (induction cs arbitrary: a b)
  case Nil
  then show ?case by simp
next
  case (Cons c cs)
  have "filter (\<lambda>x. x \<notin> set cs) (filter (\<lambda>x. x \<noteq> c) s) = filter (\<lambda>x. x \<notin> set (c # cs)) s" for s :: string
    by (induction s) auto
  then show ?case using Cons by (simp add: replace_char_def)
qed

lemma digit_char_code: "m < 10 \<Longrightarrow> (of_char (digit_char m) :: nat) = 48 + m"
proof -
  assume "m < 10"
  then have "m \<in> {0, 1, 2, 3, 4, 5, 6, 7, 8, 9}" by auto
  then show ?thesis by (auto simp: digit_char_def)
qed

lemma digits_nonempty: "digits n \<noteq> []"
  by (subst digits.simps) simp

lemma digits_codes: "c \<in> set (digits n) \<Longrightarrow> 48 \<le> (of_char c :: nat) \<and> (of_char c :: nat) \<le> 57"
proof (induction n rule: digits.induct)
  case (1 n)
  show ?case
  proof (cases "n < 10")
    case True
    then have "c = digit_char n" using "1.prems" by (subst (asm) digits.simps) simp
    then show ?thesis using digit_char_code[OF True] True by simp
  next
    case False
    then have "c \<in> set (digits (n div 10)) \<or> c = digit_char (n mod 10)"
      using "1.prems" by (subst (asm) digits.simps) auto
    then show ?thesis
    proof
      assume "c \<in> set (digits (n div 10))"
      then show ?thesis using "1.IH" False by simp
    next
      assume "c = digit_char (n mod 10)"
      moreover have "n mod 10 < 10" by simp
      ultimately show ?thesis using digit_char_code[of "n mod 10"] by simp
    qed
  qed
qed

lemma digits_value_digits: "digits_value (digits n) = n"
proof (induction n rule: digits.induct)
  case (1 n)
  show ?case
  proof (cases "n < 10")
    case True
    then show ?thesis
      by (subst digits.simps) (simp add: digits_value_def digit_char_code)
  next
    case False
    then have "digits_value (digits n) = 10 * digits_value (digits (n div 10)) + (of_char (digit_char (n mod 10)) - 48)"
      by (subst digits.simps) (simp add: digits_value_def)
    also have "\<dots> = 10 * (n div 10) + n mod 10"
      using "1.IH" False by (simp add: digit_char_code)
    finally show ?thesis by simp
  qed
qed

lemma digits_inj: "digits m = digits n \<Longrightarrow> m = n"
  by (metis digits_value_digits)

lemma str_int_inj: "str_int u = str_int v \<Longrightarrow> u = v"
proof -
  assume eq: "str_int u = str_int v"
  have hd_digit: "hd (digits n) \<noteq> CHR ''-''" for n
  proof -
    have "hd (digits n) \<in> set (digits n)" using digits_nonempty by simp
    then have "48 \<le> (of_char (hd (digits n)) :: nat)" using digits_codes by blast
    then show ?thesis by auto
  qed
  consider "u < 0" "v < 0" | "0 \<le> u" "0 \<le> v" | "u < 0" "0 \<le> v" | "0 \<le> u" "v < 0" by linarith
  then show ?thesis
  proof cases
    case 1
    then have "digits (nat (- u)) = digits (nat (- v))" using eq by (simp add: str_int_def)
    then have "nat (- u) = nat (- v)" by (rule digits_inj)
    then show ?thesis using 1 by simp
  next
    case 2
    then have "digits (nat u) = digits (nat v)" using eq by (simp add: str_int_def)
    then have "nat u = nat v" by (rule digits_inj)
    then show ?thesis using 2 by simp
  next
    case 3
    then have "CHR ''-'' # digits (nat (- u)) = digits (nat v)" using eq by (simp add: str_int_def)
    then have "hd (digits (nat v)) = CHR ''-''" by (metis list.sel(1))
    then show ?thesis using hd_digit by blast
  next
    case 4
    then have "digits (nat u) = CHR ''-'' # digits (nat (- v))" using eq by (simp add: str_int_def)
    then have "hd (digits (nat u)) = CHR ''-''" by (metis list.sel(1))
    then show ?thesis using hd_digit by blast
  qed
qed

lemma str_int_chars:
  "c \<in> set (str_int v) \<Longrightarrow> \<not> name_char c \<and> c \<notin> set unsafe_chars"
proof -
  assume "c \<in> set (str_int v)"
  then have "c = CHR ''-'' \<or> (48 \<le> (of_char c :: nat) \<and> (of_char c :: nat) \<le> 57)"
    using digits_codes by (auto simp: str_int_def split: if_splits)
  then show ?thesis
    by (auto simp: name_char_def unsafe_chars_def)
qed

lemma str_int_nonempty: "str_int v \<noteq> []"
  by (simp add: str_int_def digits_nonempty)

lemma name_char_safe: "name_char c \<Longrightarrow> c \<notin> set unsafe_chars"
  by (auto simp: name_char_def unsafe_chars_def)

lemma escape_name_char: "name_char c \<Longrightarrow> escape_char (CHR 0x27) c = [c]"
  by (auto simp: name_char_def escape_char_def Let_def)

lemma repr_str_name:
  assumes "list_all name_char k"
  shows "repr_str k = [CHR 0x27] @ k @ [CHR 0x27]"
proof -
  have "CHR 0x27 \<notin> set k" using assms by (auto simp: list_all_iff name_char_def)
  moreover have "concat (map (escape_char (CHR 0x27)) k) = k"
    using assms by (induction k) (simp_all add: escape_name_char)
  ultimately show ?thesis by (simp add: repr_str_def Let_def)
qed

lemma folder_name_label: "folder_name (a # b # rest) = Inr [label a, label b]"
  by (simp add: folder_name_def strip_loop_eq label_def Let_def)

lemma label_empty: "label [] = []"
  by (simp add: label_def str_dict_def unsafe_chars_def)

lemma label_single:
  assumes "list_all name_char k"
  shows "label [(k, IntV v)] = ''.'' @ k @ str_int v"
proof -
  have k: "filter (\<lambda>c. c \<notin> set unsafe_chars) k = k"
    using assms by (auto simp: list_all_iff name_char_safe intro: filter_True)
  have v: "filter (\<lambda>c. c \<notin> set unsafe_chars) (str_int v) = str_int v"
    using str_int_chars by (auto intro: filter_True)
  have "filter (\<lambda>c. c \<notin> set unsafe_chars) (str_dict [(k, IntV v)]) = k @ str_int v"
    by (simp add: str_dict_def repr_str_name[OF assms] k v) (simp add: unsafe_chars_def)
  then show ?thesis using str_int_nonempty by (simp add: label_def)
qed

lemma name_split:
  assumes "list_all name_char k" and "list_all name_char k'"
    and "k @ str_int u = k' @ str_int v"
  shows "k = k' \<and> u = v"
proof -
  have tw: "takeWhile name_char (j @ str_int w) = j" if "list_all name_char j" for j w
  proof -
    have "\<not> name_char (hd (str_int w))"
      using str_int_chars[of "hd (str_int w)" w] str_int_nonempty[of w] by simp
    then have "takeWhile name_char (str_int w) = []"
      using str_int_nonempty[of w] by (cases "str_int w") simp_all
    then show ?thesis using that by (simp add: takeWhile_append2 list_all_iff)
  qed
  have "k = k'" using tw[OF assms(1), of u] tw[OF assms(2), of v] assms(3) by simp
  then show ?thesis using assms(3) str_int_inj by simp
qed

lemma label_inj:
  assumes "simple_selection a" and "simple_selection a'" and "label a = label a'"
  shows "a = a'"
proof -
  have shape: "d = [] \<or> (\<exists>k v. d = [(k, IntV v)] \<and> list_all name_char k)" if "simple_selection d" for d
    using that by (induction d rule: simple_selection.induct) simp_all
  from shape[OF assms(1)] shape[OF assms(2)] show ?thesis
  proof (elim disjE exE conjE)
    assume "a = []" "a' = []" then show ?thesis by simp
  next
    fix k v assume "a = []" "a' = [(k, IntV v)]" "list_all name_char k"
    then show ?thesis using assms(3) by (simp add: label_empty label_single)
  next
    fix k v assume "a = [(k, IntV v)]" "list_all name_char k" "a' = []"
    then show ?thesis using assms(3) by (simp add: label_empty label_single)
  next
    fix k v k' v'
    assume a: "a = [(k, IntV v)]" "list_all name_char k" and a': "a' = [(k', IntV v')]" "list_all name_char k'"
    then have "k @ str_int v = k' @ str_int v'" using assms(3) by (simp add: label_single)
    then show ?thesis using name_split[OF a(2) a'(2)] a(1) a'(1) by simp
  qed
qed

lemma label_fixed: "filter (\<lambda>c. c \<notin> set unsafe_chars) (label d) = label d"
  by (simp add: label_def Let_def) (simp add: unsafe_chars_def)

lemma label_dot: "label d = [] \<or> (\<exists>s. label d = CHR ''.'' # s)"
  by (simp add: label_def Let_def)

section \<open>The nominal band count\<close>

text \<open>
  Claim C6. Let \<open>zval\<close> give the valence electron count of every element: each entry of
  the potcar carries the count of its element, the element of every site has an entry,
  and the counts of the elements present are not negative. Then \<open>get_electrons\<close>
  returns the sum of \<open>zval\<close> over the sites of the structure, one term per atom, and
  \<open>get_bands\<close> returns the floor of half that sum plus the number of sites.
\<close>

theorem get_bands_floor_half_electrons:
  assumes "\<forall>p\<in>set (get_potcar ext self st). nelectrons p = zval (element p)"
    and "\<forall>el\<in>set (species st). el \<in> element ` set (get_potcar ext self st)"
    and "\<forall>el\<in>set (species st). 0 \<le> zval el"
  shows "get_electrons ext self st = Inr (\<Sum>el\<leftarrow>species st. zval el) \<and>
         get_bands ext self st =
           Inr (\<lfloor>real_of_int (\<Sum>el\<leftarrow>species st. zval el) / 2\<rfloor> + int (length (species st)))"
proof -
  let ?tab = "valence_list Map.empty (get_potcar ext self st)"
  let ?e = "\<Sum>el\<leftarrow>species st. zval el"
  have present: "\<forall>el\<in>set (species st). ?tab el \<noteq> None"
  proof
    fix el assume "el \<in> set (species st)"
    then have "el \<in> element ` set (get_potcar ext self st)" using assms(2) by blast
    then show "?tab el \<noteq> None" by (subst valence_list_dom) blast
  qed
  have val: "the (?tab el) = zval el" if "el \<in> set (species st)" for el
  proof -
    have "?tab el \<noteq> None" using present that by blast
    then obtain n where n: "?tab el = Some n" by blast
    have "n = zval el"
      by (rule valence_list_consistent[OF assms(1) _ n]) simp
    then show ?thesis using n by simp
  qed
  have m: "map (\<lambda>el. the (?tab el)) (species st) = map zval (species st)"
    using val by (intro map_cong) simp_all
  have "lookup_species ?tab (species st) = Inr (map (\<lambda>el. the (?tab el)) (species st))"
    by (rule lookup_species_total[OF present])
  then have "lookup_species ?tab (species st) = Inr (map zval (species st))"
    by (simp only: m)
  then have el: "get_electrons ext self st = Inr ?e"
    by (simp add: get_electrons_def)
  have nonneg: "0 \<le> ?e" using assms(3) by (intro sum_list_nonneg) auto
  have "py_int (real_of_int ?e / 2 + real (length (species st)))
        = \<lfloor>real_of_int ?e / 2 + real (length (species st))\<rfloor>"
    using nonneg by (intro py_int_nonneg) simp
  also have "\<dots> = \<lfloor>real_of_int ?e / 2\<rfloor> + int (length (species st))"
    by (metis floor_add_int of_int_of_nat_eq)
  finally show ?thesis using el by (simp add: get_bands_def)
qed

text \<open>
  At the cell of one silicon, two oxygen and one hydrogen atom the potcar has the three
  entries Si 4, O 6 and H 1: the sum over the four atoms is 4 + 6 + 6 + 1 = 17 and the
  band count is 8 + 4 = 12.
\<close>

theorem get_bands_floor_half_electrons_witness:
  "species sio2h_cell = [''Si'', ''O'', ''O'', ''H'']
   \<and> get_potcar example_external example_base sio2h_cell =
       [\<lparr>element = ''Si'', nelectrons = 4\<rparr>, \<lparr>element = ''O'', nelectrons = 6\<rparr>,
        \<lparr>element = ''H'', nelectrons = 1\<rparr>]
   \<and> get_electrons example_external example_base sio2h_cell = Inr 17
   \<and> get_bands example_external example_base sio2h_cell = Inr 12"
proof -
  have sp: "species sio2h_cell = [''Si'', ''O'', ''O'', ''H'']" by (simp add: sio2h_cell_def)
  have pc: "get_potcar example_external example_base sio2h_cell =
       [\<lparr>element = ''Si'', nelectrons = 4\<rparr>, \<lparr>element = ''O'', nelectrons = 6\<rparr>,
        \<lparr>element = ''H'', nelectrons = 1\<rparr>]"
    by (simp add: sio2h_cell_def get_potcar_def example_external_def example_base_def valence_example_def)
  have h1: "\<forall>p\<in>set (get_potcar example_external example_base sio2h_cell).
              nelectrons p = valence_example (element p)"
    unfolding pc by (simp add: valence_example_def)
  have h2: "\<forall>el\<in>set (species sio2h_cell).
              el \<in> element ` set (get_potcar example_external example_base sio2h_cell)"
    unfolding pc sp by simp
  have h3: "\<forall>el\<in>set (species sio2h_cell). 0 \<le> valence_example el"
    by (simp add: valence_example_def)
  have s: "(\<Sum>el\<leftarrow>species sio2h_cell. valence_example el) = 17"
    unfolding sp by (simp add: valence_example_def)
  from get_bands_floor_half_electrons [OF h1 h2 h3]
  have "get_electrons example_external example_base sio2h_cell = Inr 17"
    and "get_bands example_external example_base sio2h_cell = Inr 12"
    unfolding s by (simp_all add: sp)
  then show ?thesis using sp pc by simp
qed

section \<open>The parallel factor\<close>

text \<open>
  Claim C1, as the code has it. Take a band count \<open>b\<close> from 1 to \<open>2\<^sup>2\<^sup>6\<close>, whose square is
  a double, and a volume \<open>v > 0\<close> with \<open>b\<^sup>2 * v\<close> within the range of the doubles.
  \<open>get_npar\<close> returns the integer part of the quotient \<open>b\<^sup>2 * v / 600\<close> as double
  arithmetic computes it, the product rounded and then the quotient, clamped to the
  range from 1 to 52: \<^verbatim>\<open>int\<close> truncates, it does not round to the nearest integer. With
  \<open>x\<close> the exact quotient, the result is at least the floor of \<open>x\<close> clamped and at most
  the ceiling of \<open>x\<close> clamped; it lies between 1 and 52; and it does not decrease when
  \<open>b\<^sup>2 * v\<close> grows.
\<close>

theorem get_npar_clamp_floor:
  assumes "get_bands ext self st = Inr b" and "1 \<le> b" and "b \<le> 2 ^ 26"
    and "0 < volume st" and "real_of_int (b ^ 2) * volume st \<le> double_max"
  shows "\<exists>n. get_npar ext self st = Inr n
           \<and> n = min (max \<lfloor>fl (fl (real_of_int (b ^ 2) * volume st) / 600)\<rfloor> 1) 52
           \<and> min (max \<lfloor>real_of_int (b ^ 2) * volume st / 600\<rfloor> 1) 52 \<le> n
           \<and> n \<le> min (max \<lceil>real_of_int (b ^ 2) * volume st / 600\<rceil> 1) 52
           \<and> 1 \<le> n \<and> n \<le> 52
           \<and> (\<forall>ext' self' st' b' n'.
                 get_bands ext' self' st' = Inr b' \<and> 1 \<le> b' \<and> b' \<le> 2 ^ 26 \<and> 0 < volume st'
                 \<and> get_npar ext' self' st' = Inr n'
                 \<and> real_of_int (b ^ 2) * volume st \<le> real_of_int (b' ^ 2) * volume st'
                 \<longrightarrow> n \<le> n')"
proof -
  let ?p = "real_of_int (b ^ 2) * volume st"
  let ?q = "fl (fl ?p / 600)"
  let ?x = "?p / 600"
  have b0: "0 \<le> b" using assms(2) by simp
  have v0: "0 \<le> volume st" using assms(4) by simp
  have p0: "0 \<le> ?p" using v0 by (intro mult_nonneg_nonneg) simp_all
  have n: "get_npar ext self st = Inr (min (max \<lfloor>?q\<rfloor> 1) 52)"
    by (rule get_npar_value[OF assms(1) b0 assms(3) v0 assms(5)])
  have below: "of_int k \<le> ?q" if "0 \<le> k" "k \<le> 52" "of_int k \<le> ?x" for k :: int
  proof -
    have k6: "0 \<le> 600 * k" "600 * k \<le> 2 ^ 53" using that(1,2) by simp_all
    have "real_of_int (600 * k) \<le> ?p" using that(3) by simp
    then have "fl (real_of_int (600 * k)) \<le> fl ?p" using k6(1) by (intro fl_mono) simp_all
    then have "real_of_int (600 * k) \<le> fl ?p" by (simp only: fl_of_int[OF k6])
    then have kq: "real_of_int k \<le> fl ?p / 600" by simp
    have "fl (real_of_int k) \<le> ?q" using that(1) kq by (intro fl_mono) simp_all
    moreover have "fl (real_of_int k) = real_of_int k" using that(1,2) by (intro fl_of_int) simp_all
    ultimately show ?thesis by simp
  qed
  have above: "?q \<le> of_int k" if "0 \<le> k" "k \<le> 52" "?x \<le> of_int k" for k :: int
  proof -
    have k6: "0 \<le> 600 * k" "600 * k \<le> 2 ^ 53" using that(1,2) by simp_all
    have "?p \<le> real_of_int (600 * k)" using that(3) by simp
    then have "fl ?p \<le> fl (real_of_int (600 * k))" using p0 by (intro fl_mono)
    then have "fl ?p \<le> real_of_int (600 * k)" by (simp only: fl_of_int[OF k6])
    then have kq: "fl ?p / 600 \<le> real_of_int k" by simp
    have "0 \<le> fl ?p / 600" using fl_nonneg[OF p0] by simp
    then have "?q \<le> fl (real_of_int k)" using kq by (intro fl_mono)
    moreover have "fl (real_of_int k) = real_of_int k" using that(1,2) by (intro fl_of_int) simp_all
    ultimately show ?thesis by simp
  qed
  have x0: "0 \<le> ?x" using p0 by simp
  have lower: "min (max \<lfloor>?x\<rfloor> 1) 52 \<le> min (max \<lfloor>?q\<rfloor> 1) 52"
  proof -
    define k where "k = min \<lfloor>?x\<rfloor> 52"
    have "0 \<le> \<lfloor>?x\<rfloor>" using x0 by simp
    then have k: "0 \<le> k" "k \<le> 52" by (simp_all add: k_def)
    have "k \<le> \<lfloor>?x\<rfloor>" unfolding k_def by simp
    then have "real_of_int k \<le> of_int \<lfloor>?x\<rfloor>" by (simp only: of_int_le_iff)
    also have "\<dots> \<le> ?x" by (rule of_int_floor_le)
    finally have "of_int k \<le> ?q" using below[OF k] by simp
    then have "k \<le> \<lfloor>?q\<rfloor>" by (simp add: le_floor_iff)
    then show ?thesis unfolding k_def by simp
  qed
  have upper: "min (max \<lfloor>?q\<rfloor> 1) 52 \<le> min (max \<lceil>?x\<rceil> 1) 52"
  proof (cases "\<lceil>?x\<rceil> \<le> 52")
    case True
    have "0 \<le> \<lceil>?x\<rceil>" using ceiling_mono[OF x0] by simp
    then have "?q \<le> of_int \<lceil>?x\<rceil>" using above[OF _ True] by simp
    then have "\<lfloor>?q\<rfloor> \<le> \<lceil>?x\<rceil>" by (simp add: floor_le_iff)
    then show ?thesis by simp
  next
    case False
    then show ?thesis by simp
  qed
  have mono: "min (max \<lfloor>?q\<rfloor> 1) 52 \<le> n'"
    if "get_bands ext' self' st' = Inr b'" "1 \<le> b'" "b' \<le> 2 ^ 26" "0 < volume st'"
       "get_npar ext' self' st' = Inr n'"
       "?p \<le> real_of_int (b' ^ 2) * volume st'"
    for ext' self' st' b' n'
  proof -
    let ?p' = "real_of_int (b' ^ 2) * volume st'"
    have n': "n' = min (max \<lfloor>fl (fl ?p' / 600)\<rfloor> 1) 52"
      using that by (intro get_npar_returned[of ext' self' st' b']) simp_all
    have "fl ?p \<le> fl ?p'" using p0 that(6) by (rule fl_mono)
    then have "fl ?p / 600 \<le> fl ?p' / 600" by simp
    moreover have "0 \<le> fl ?p / 600" using fl_nonneg[OF p0] by simp
    ultimately have "?q \<le> fl (fl ?p' / 600)" by (intro fl_mono)
    then have "\<lfloor>?q\<rfloor> \<le> \<lfloor>fl (fl ?p' / 600)\<rfloor>" by (rule floor_mono)
    then show ?thesis unfolding n' by simp
  qed
  show ?thesis
  proof (intro exI conjI allI impI)
    show "get_npar ext self st = Inr (min (max \<lfloor>?q\<rfloor> 1) 52)" by (rule n)
    show "min (max \<lfloor>?q\<rfloor> 1) 52 = min (max \<lfloor>?q\<rfloor> 1) 52" ..
    show "min (max \<lfloor>?x\<rfloor> 1) 52 \<le> min (max \<lfloor>?q\<rfloor> 1) 52" by (rule lower)
    show "min (max \<lfloor>?q\<rfloor> 1) 52 \<le> min (max \<lceil>?x\<rceil> 1) 52" by (rule upper)
    show "1 \<le> min (max \<lfloor>?q\<rfloor> 1) 52" by simp
    show "min (max \<lfloor>?q\<rfloor> 1) 52 \<le> 52" by simp
  next
    fix ext' self' st' b' n'
    assume "get_bands ext' self' st' = Inr b' \<and> 1 \<le> b' \<and> b' \<le> 2 ^ 26 \<and> 0 < volume st'
                 \<and> get_npar ext' self' st' = Inr n'
                 \<and> ?p \<le> real_of_int (b' ^ 2) * volume st'"
    then show "min (max \<lfloor>?q\<rfloor> 1) 52 \<le> n'" using mono by blast
  qed
qed

text \<open>
  At the silicon cell (3 bands, volume 120) the exact quotient is 1.8 and the factor
  is 1, its floor. At volume 333.3333333333333 the exact quotient is a little under 5;
  the product rounds to 3000, so the factor is 5, the ceiling, and not smaller than the
  first. The cell of 29 magnesium atoms (58 bands, volume 1200) has the factor 52.
\<close>

theorem get_npar_clamp_floor_witness:
  "get_bands example_external example_base si_cell = Inr 3 \<and> (1::int) \<le> 3 \<and> (3::int) \<le> 2 ^ 26
   \<and> 0 < volume si_cell \<and> real_of_int (3 ^ 2) * volume si_cell \<le> double_max
   \<and> get_npar example_external example_base si_cell = Inr 1
   \<and> \<lfloor>real_of_int (3 ^ 2) * volume si_cell / 600\<rfloor> = 1
   \<and> get_bands example_external example_base si_cell_third = Inr 3
   \<and> get_npar example_external example_base si_cell_third = Inr 5
   \<and> \<lfloor>real_of_int (3 ^ 2) * volume si_cell_third / 600\<rfloor> = 4
   \<and> \<lceil>real_of_int (3 ^ 2) * volume si_cell_third / 600\<rceil> = 5
   \<and> real_of_int (3 ^ 2) * volume si_cell \<le> real_of_int (3 ^ 2) * volume si_cell_third
   \<and> get_npar example_external example_base mg_cell = Inr 52"
proof -
  have v: "0 < volume si_cell" by (simp add: si_cell_def)
  have v3: "0 < volume si_cell_third" by (simp add: si_cell_third_def)
  have "real_of_int (3 ^ 2) * volume si_cell \<le> 2 ^ 53" by (simp add: si_cell_def)
  then have dm: "real_of_int (3 ^ 2) * volume si_cell \<le> double_max"
    using two53_le_double_max by linarith
  have le: "real_of_int (3 ^ 2) * volume si_cell \<le> real_of_int (3 ^ 2) * volume si_cell_third"
    by (simp add: si_cell_def si_cell_third_def)
  have fx: "\<lfloor>real_of_int (3 ^ 2) * volume si_cell / 600\<rfloor> = 1" by (simp add: si_cell_def)
  have f3: "\<lfloor>real_of_int (3 ^ 2) * volume si_cell_third / 600\<rfloor> = 4"
    and c3: "\<lceil>real_of_int (3 ^ 2) * volume si_cell_third / 600\<rceil> = 5"
    by (simp_all add: si_cell_third_def)
  from get_npar_clamp_floor [OF si_bands _ _ v dm]
  obtain n where n: "get_npar example_external example_base si_cell = Inr n"
    and lo: "min (max \<lfloor>real_of_int (3 ^ 2) * volume si_cell / 600\<rfloor> 1) 52 \<le> n"
    and mono: "\<forall>ext' self' st' b' n'.
                 get_bands ext' self' st' = Inr b' \<and> 1 \<le> b' \<and> b' \<le> 2 ^ 26 \<and> 0 < volume st'
                 \<and> get_npar ext' self' st' = Inr n'
                 \<and> real_of_int (3 ^ 2) * volume si_cell \<le> real_of_int (b' ^ 2) * volume st'
                 \<longrightarrow> n \<le> n'"
    by auto
  have n1: "n = 1" using n si_npar by simp
  have "n \<le> 5"
    using mono [rule_format, of example_external example_base si_cell_third 3 5]
      si_third_bands si_third_npar le v3 by simp
  then show ?thesis
    using n n1 v dm le fx f3 c3 si_bands si_third_bands si_third_npar mg_npar by simp
qed

text \<open>
  The formula of the specification rounds to the nearest integer. At 3 bands and volume
  120 the quotient is 1.8: the code returns 1, the formula gives 2.
\<close>

theorem get_npar_round_counterexample:
  "get_bands example_external example_base si_cell = Inr 3
   \<and> volume si_cell = 120
   \<and> get_npar example_external example_base si_cell = Inr 1
   \<and> estimate_parallel_factor 3 120 = 2"
  by (simp add: si_bands si_npar) (simp add: si_cell_def estimate_parallel_factor_def round_def)

section \<open>The band buffer of the diagonalization stage\<close>



section \<open>The iterative many-body update\<close>



section \<open>Alignment to the parallel factor\<close>

text \<open>
  Claim C3. The value that \<open>set_test\<close> stores under NBANDS by the method
  \<^verbatim>\<open>'set_nbands'\<close>, the value it stores under NOMEGA by the method \<^verbatim>\<open>'set_nomega'\<close>,
  the value that \<open>set_gw_bands\<close> stores under NBANDS and the value that the many-body
  constructor stores under NOMEGA are each an integer multiple of the parallel factor
  \<open>get_npar\<close> returns for the structure of the input set. The statement covers every
  table of tests, the one of the three classes among them.
\<close>

theorem derived_counts_multiples_of_npar:
  "(set_test_with tests ext self ((key, x) # rest) = (None, self')
      \<and> tests key = Some entry \<and> test_method entry = ''set_nbands''
      \<and> get_npar ext self (struct self) = Inr npar
    \<longrightarrow> (\<exists>v. incar_settings self' ''NBANDS'' = Some (IntV v) \<and> npar dvd v))
   \<and> (set_test_with tests ext self ((key, x) # rest) = (None, self')
      \<and> tests key = Some entry \<and> test_method entry = ''set_nomega''
      \<and> get_npar ext self (struct self) = Inr npar
    \<longrightarrow> (\<exists>v. incar_settings self' ''NOMEGA'' = Some (IntV v) \<and> npar dvd v))
   \<and> (set_gw_bands ext self factor = (None, self')
      \<and> get_npar ext self (struct self) = Inr npar
    \<longrightarrow> (\<exists>v. incar_settings self' ''NBANDS'' = Some (IntV v) \<and> npar dvd v))
   \<and> (MPGWG0W0VaspInputSet ext base st func = Inr self'
    \<longrightarrow> (\<exists>npar v. get_npar ext self' (struct self') = Inr npar
           \<and> incar_settings self' ''NPAR'' = Some (IntV npar)
           \<and> incar_settings self' ''NOMEGA'' = Some (IntV v) \<and> npar dvd v))"
proof (intro conjI impI)
  assume "set_test_with tests ext self ((key, x) # rest) = (None, self')
      \<and> tests key = Some entry \<and> test_method entry = ''set_nbands''
      \<and> get_npar ext self (struct self) = Inr npar"
  then show "\<exists>v. incar_settings self' ''NBANDS'' = Some (IntV v) \<and> npar dvd v"
    using set_test_with_nbands by blast
next
  assume "set_test_with tests ext self ((key, x) # rest) = (None, self')
      \<and> tests key = Some entry \<and> test_method entry = ''set_nomega''
      \<and> get_npar ext self (struct self) = Inr npar"
  then show "\<exists>v. incar_settings self' ''NOMEGA'' = Some (IntV v) \<and> npar dvd v"
    using set_test_with_nomega by blast
next
  assume "set_gw_bands ext self factor = (None, self')
      \<and> get_npar ext self (struct self) = Inr npar"
  then show "\<exists>v. incar_settings self' ''NBANDS'' = Some (IntV v) \<and> npar dvd v"
    using set_gw_bands_multiple by blast
next
  assume "MPGWG0W0VaspInputSet ext base st func = Inr self'"
  then show "\<exists>npar v. get_npar ext self' (struct self') = Inr npar
           \<and> incar_settings self' ''NPAR'' = Some (IntV npar)
           \<and> incar_settings self' ''NOMEGA'' = Some (IntV v) \<and> npar dvd v"
    by (rule G0W0_init_multiple)
qed

text \<open>
  On the cell of 29 magnesium atoms the parallel factor is 52: the override NBANDS = 10
  stores 624, the override NOMEGA = 80 stores 52, the band buffer with factor 15 stores
  884, and the constructor, on a 4x4x4 grid, stores NOMEGA = 52.
\<close>

theorem derived_counts_multiples_of_npar_witness:
  "(\<exists>self'. set_test example_external example_base [(''NBANDS'', IntV 10)] = (None, self')
       \<and> incar_settings self' ''NBANDS'' = Some (IntV 624) \<and> (52::int) dvd 624)
   \<and> (\<exists>self'. set_test example_external example_base [(''NOMEGA'', IntV 80)] = (None, self')
       \<and> incar_settings self' ''NOMEGA'' = Some (IntV 52) \<and> (52::int) dvd 52)
   \<and> (\<exists>self'. set_gw_bands example_external example_base 15 = (None, self')
       \<and> incar_settings self' ''NBANDS'' = Some (IntV 884) \<and> (52::int) dvd 884)
   \<and> (\<exists>self'. MPGWG0W0VaspInputSet example_external example_base mg_cell ''PBE'' = Inr self'
       \<and> incar_settings self' ''NPAR'' = Some (IntV 52)
       \<and> incar_settings self' ''NOMEGA'' = Some (IntV 52) \<and> (52::int) dvd 52)"
proof -
  let ?T = "all_tests TESTS_prep TESTS_diag TESTS_g0w0"
  let ?s1 = "example_base\<lparr>incar_settings := (incar_settings example_base)(''NBANDS'' \<mapsto> IntV 624)\<rparr>"
  let ?s2 = "example_base\<lparr>incar_settings := (incar_settings example_base)(''NOMEGA'' \<mapsto> IntV 52)\<rparr>"
  let ?s3 = "example_base\<lparr>incar_settings := (incar_settings example_base)(''NBANDS'' \<mapsto> IntV 884, ''ALGO'' \<mapsto> StrV ''fast'')\<rparr>"
  obtain s4 where s4: "MPGWG0W0VaspInputSet example_external example_base mg_cell ''PBE'' = Inr s4"
    and s4n: "incar_settings s4 ''NOMEGA'' = Some (IntV 52)" "incar_settings s4 ''NPAR'' = Some (IntV 52)"
    using G0W0_example by auto
  note main = derived_counts_multiples_of_npar
  have a: "\<exists>v. incar_settings ?s1 ''NBANDS'' = Some (IntV v) \<and> 52 dvd v"
    using main [of ?T example_external example_base "''NBANDS''" "IntV 10" "[]" ?s1
                 "\<lparr>test_range = [10, 20, 30], test_method = ''set_nbands'', control = ''gap''\<rparr>" 52]
      set_test_example_nbands all_tests_NBANDS npar_example_base by simp
  have b: "\<exists>v. incar_settings ?s2 ''NOMEGA'' = Some (IntV v) \<and> 52 dvd v"
    using main [of ?T example_external example_base "''NOMEGA''" "IntV 80" "[]" ?s2
                 "\<lparr>test_range = [80, 100, 120], test_method = ''set_nomega'', control = ''gap''\<rparr>" 52]
      set_test_example_nomega all_tests_NOMEGA npar_example_base by simp
  have c: "\<exists>v. incar_settings ?s3 ''NBANDS'' = Some (IntV v) \<and> 52 dvd v"
    using main [of _ example_external example_base _ _ _ _ _ 52 15 ?s3]
      set_gw_bands_example npar_example_base by simp
  have d: "\<exists>npar v. get_npar example_external s4 (struct s4) = Inr npar
           \<and> incar_settings s4 ''NPAR'' = Some (IntV npar)
           \<and> incar_settings s4 ''NOMEGA'' = Some (IntV v) \<and> npar dvd v"
    using main [of _ example_external example_base _ _ _ s4 _ _ _ example_base mg_cell "''PBE''"] s4 by simp
  have a': "(52::int) dvd 624" using a by simp
  have b': "(52::int) dvd 52" using b by simp
  have c': "(52::int) dvd 884" using c by simp
  have 1: "\<exists>self'. set_test example_external example_base [(''NBANDS'', IntV 10)] = (None, self')
       \<and> incar_settings self' ''NBANDS'' = Some (IntV 624) \<and> (52::int) dvd 624"
    unfolding set_test_def set_test_example_nbands using a' by simp
  have 2: "\<exists>self'. set_test example_external example_base [(''NOMEGA'', IntV 80)] = (None, self')
       \<and> incar_settings self' ''NOMEGA'' = Some (IntV 52) \<and> (52::int) dvd 52"
    unfolding set_test_def set_test_example_nomega by simp
  have 3: "\<exists>self'. set_gw_bands example_external example_base 15 = (None, self')
       \<and> incar_settings self' ''NBANDS'' = Some (IntV 884) \<and> (52::int) dvd 884"
    unfolding set_gw_bands_example using c' by simp
  have 4: "\<exists>self'. MPGWG0W0VaspInputSet example_external example_base mg_cell ''PBE'' = Inr self'
       \<and> incar_settings self' ''NPAR'' = Some (IntV 52)
       \<and> incar_settings self' ''NOMEGA'' = Some (IntV 52) \<and> (52::int) dvd 52"
    using s4 s4n d by simp
  show ?thesis
    by (intro conjI) (rule 1, rule 2, rule 3, rule 4)
qed

section \<open>Overrides outside the catalogs, and the k-point-grid method\<close>

text \<open>
  Claim C8. An override whose parameter name is in none of the three tables makes
  \<open>set_test\<close> raise \<^verbatim>\<open>KeyError\<close> and leaves the input set as it was; the same holds
  for any table that lacks the name. An override whose entry has the method
  \<^verbatim>\<open>'kpoint_grid'\<close> leaves the input set as it was in every case, and returns without
  an exception whenever the parallel factor of the structure can be computed
  (\<open>set_test\<close> computes it before it looks at the method).
\<close>

theorem set_test_unknown_or_kpoint_grid:
  "(key \<notin> dom TESTS_prep \<union> dom TESTS_diag \<union> dom TESTS_g0w0
      \<longrightarrow> set_test ext self ((key, x) # rest) = (Some KeyError, self))
   \<and> (tests key = None
      \<longrightarrow> set_test_with tests ext self ((key, x) # rest) = (Some KeyError, self))
   \<and> (tests key = Some entry \<and> test_method entry = ''kpoint_grid''
      \<longrightarrow> snd (set_test_with tests ext self ((key, x) # rest)) = self
          \<and> (\<forall>npar. get_npar ext self (struct self) = Inr npar
                \<longrightarrow> set_test_with tests ext self ((key, x) # rest) = (None, self)))"
proof (intro conjI impI allI)
  assume "key \<notin> dom TESTS_prep \<union> dom TESTS_diag \<union> dom TESTS_g0w0"
  then have "all_tests TESTS_prep TESTS_diag TESTS_g0w0 key = None"
    by (auto simp: all_tests_def map_add_def split: option.splits)
  then show "set_test ext self ((key, x) # rest) = (Some KeyError, self)"
    unfolding set_test_def by (rule set_test_with_unknown)
next
  assume "tests key = None"
  then show "set_test_with tests ext self ((key, x) # rest) = (Some KeyError, self)"
    by (rule set_test_with_unknown)
next
  assume "tests key = Some entry \<and> test_method entry = ''kpoint_grid''"
  then show "snd (set_test_with tests ext self ((key, x) # rest)) = self"
    using set_test_with_kpoint_grid(1) by blast
next
  fix npar
  assume "tests key = Some entry \<and> test_method entry = ''kpoint_grid''"
    and "get_npar ext self (struct self) = Inr npar"
  then show "set_test_with tests ext self ((key, x) # rest) = (None, self)"
    using set_test_with_kpoint_grid(2) by blast
qed

text \<open>
  The name ENCUT is in no table of the three classes; KPOINTS has the k-point-grid
  method in the example table.
\<close>

theorem set_test_unknown_or_kpoint_grid_witness:
  "''ENCUT'' \<notin> dom TESTS_prep \<union> dom TESTS_diag \<union> dom TESTS_g0w0
   \<and> set_test example_external example_base [(''ENCUT'', IntV 300)] = (Some KeyError, example_base)
   \<and> example_tests ''KPOINTS'' =
        Some \<lparr>test_range = [500, 1000], test_method = ''kpoint_grid'', control = ''gap''\<rparr>
   \<and> get_npar example_external example_base (struct example_base) = Inr 52
   \<and> set_test_with example_tests example_external example_base [(''KPOINTS'', IntV 500)]
        = (None, example_base)"
proof -
  have k: "''ENCUT'' \<notin> dom TESTS_prep \<union> dom TESTS_diag \<union> dom TESTS_g0w0"
    by (simp add: TESTS_prep_def TESTS_diag_def TESTS_g0w0_def)
  have e: "example_tests ''KPOINTS'' =
        Some \<lparr>test_range = [500, 1000], test_method = ''kpoint_grid'', control = ''gap''\<rparr>"
    by (simp add: example_tests_def)
  note main = set_test_unknown_or_kpoint_grid
    [of _ example_external example_base _ _ example_tests
        "\<lparr>test_range = [500, 1000], test_method = ''kpoint_grid'', control = ''gap''\<rparr>"]
  have 1: "set_test example_external example_base [(''ENCUT'', IntV 300)] = (Some KeyError, example_base)"
    using main [of "''ENCUT''" "IntV 300" "[]"] k by blast
  have 2: "set_test_with example_tests example_external example_base [(''KPOINTS'', IntV 500)]
        = (None, example_base)"
    using main [of "''KPOINTS''" "IntV 500" "[]"] e npar_example_base by simp
  show ?thesis using k e npar_example_base 1 2 by blast
qed

section \<open>The irreducible mesh with the band extrema\<close>

text \<open>
  Claim C9. When the k-point settings hold \<^verbatim>\<open>'kpoints_density'\<close> and the automatic
  mesh has a first row, \<open>get_kpoints\<close> with \<open>regular = False\<close> returns a k-point object
  whose points are the irreducible points followed by the two band extrema and whose
  weights are the irreducible weights followed by two zeros: both lists have two
  elements more than there are irreducible points, while \<open>num_kpts\<close> is the number of
  irreducible points, two less than the length of the lists.
\<close>

theorem get_kpoints_irreducible_counts:
  assumes "kpoints_settings self ''kpoints_density'' = Some kd"
    and "kpts (automatic_density ext st (kd * reciprocal_volume st * real (length (species st)))) = mesh # others"
  shows "\<exists>k. get_kpoints ext self st False = Inr k
           \<and> length (kpts k) = length (get_ir_reciprocal_mesh ext st mesh) + 2
           \<and> length (kpts_weights k) = length (get_ir_reciprocal_mesh ext st mesh) + 2
           \<and> num_kpts k = int (length (get_ir_reciprocal_mesh ext st mesh))
           \<and> int (length (kpts k)) = num_kpts k + 2
           \<and> kpts k = map fst (get_ir_reciprocal_mesh ext st mesh) @ [cbm st, vbm st]
           \<and> kpts_weights k = map snd (get_ir_reciprocal_mesh ext st mesh) @ [0, 0]"
  using assms by (simp add: get_kpoints_def getitem_def Let_def ir_loop_eq)

text \<open>With three irreducible points: five points and five weights, and \<open>num_kpts = 3\<close>.\<close>

theorem get_kpoints_irreducible_counts_witness:
  "kpoints_settings example_base ''kpoints_density'' = Some 10
   \<and> (\<exists>k. get_kpoints example_external example_base si_cell False = Inr k
         \<and> length (kpts k) = 5 \<and> length (kpts_weights k) = 5 \<and> num_kpts k = 3)"
proof -
  have d: "kpoints_settings example_base ''kpoints_density'' = Some 10"
    by (simp add: example_base_def)
  have m: "kpts (automatic_density example_external si_cell
              (10 * reciprocal_volume si_cell * real (length (species si_cell)))) = [2, 2, 2] # []"
    by (simp add: example_external_def)
  have ir: "get_ir_reciprocal_mesh example_external si_cell [2, 2, 2]
            = [([0, 0, 0], 1), ([1/2, 0, 0], 4), ([1/2, 1/2, 0], 3)]"
    by (simp add: example_external_def)
  from get_kpoints_irreducible_counts [OF d m]
  have "\<exists>k. get_kpoints example_external example_base si_cell False = Inr k
         \<and> length (kpts k) = 5 \<and> length (kpts_weights k) = 5 \<and> num_kpts k = 3"
    unfolding ir by auto
  then show ?thesis using d by blast
qed

section \<open>Validation of the specification\<close>

text \<open>
  Claim C5. On the default specification with the code set to ABINIT and the
  functional to LDA, \<open>GWSpecs_test\<close> records exactly one error, prints it and raises
  \<^verbatim>\<open>SystemExit\<close> without touching a file, so the script ends before \<^verbatim>\<open>main\<close> creates
  a job. On the default specification with the code set to ABINIT and the test flag
  set, it records one warning and no error, and returns.
\<close>

theorem test_abinit_lda_one_error:
  "GWSpecs_test (GWSpecs_init\<lparr>data := (data GWSpecs_init)\<lparr>d_code := ''ABINIT'', d_functional := ''LDA''\<rparr>\<rparr>) w
     = (Some SystemExit,
        GWSpecs_init\<lparr>data := (data GWSpecs_init)\<lparr>d_code := ''ABINIT'', d_functional := ''LDA''\<rparr>,
                      errors := [''LDAnot defined for ABINIT yet'']\<rparr>,
        w\<lparr>stdout := stdout w @ [''1 error(s) found:'', str_list [''LDAnot defined for ABINIT yet'']]\<rparr>)
   \<and> length (errors (fst (snd (GWSpecs_test
         (GWSpecs_init\<lparr>data := (data GWSpecs_init)\<lparr>d_code := ''ABINIT'', d_functional := ''LDA''\<rparr>\<rparr>) w)))) = 1
   \<and> files (snd (snd (GWSpecs_test
         (GWSpecs_init\<lparr>data := (data GWSpecs_init)\<lparr>d_code := ''ABINIT'', d_functional := ''LDA''\<rparr>\<rparr>) w))) = files w
   \<and> script main (GWSpecs_init\<lparr>data := (data GWSpecs_init)\<lparr>d_code := ''ABINIT'', d_functional := ''LDA''\<rparr>\<rparr>) w
     = (Some SystemExit, [])
   \<and> (\<exists>w'. GWSpecs_test (GWSpecs_init\<lparr>data := (data GWSpecs_init)\<lparr>d_code := ''ABINIT'', d_test := True\<rparr>\<rparr>) w
     = (None,
        GWSpecs_init\<lparr>data := (data GWSpecs_init)\<lparr>d_code := ''ABINIT'', d_test := True\<rparr>,
                      warnings := [''no tests defined for ABINIT calculations'']\<rparr>,
        w'))
   \<and> errors (GWSpecs_init\<lparr>data := (data GWSpecs_init)\<lparr>d_code := ''ABINIT'', d_test := True\<rparr>,
                      warnings := [''no tests defined for ABINIT calculations'']\<rparr>) = []"
  by (simp add: GWSpecs_test_abinit_lda GWSpecs_test_abinit_test script_def data_init)

text \<open>
  With a \<^verbatim>\<open>main\<close> that creates two jobs: none is created for ABINIT with LDA, both are
  for the default specification.
\<close>

theorem test_abinit_lda_one_error_witness:
  "script (\<lambda>spec w. [''prep'', ''G0W0''])
      (GWSpecs_init\<lparr>data := (data GWSpecs_init)\<lparr>d_code := ''ABINIT'', d_functional := ''LDA''\<rparr>\<rparr>)
      \<lparr>files = Map.empty, stdout = []\<rparr>
     = (Some SystemExit, [])
   \<and> script (\<lambda>spec w. [''prep'', ''G0W0'']) GWSpecs_init \<lparr>files = Map.empty, stdout = []\<rparr>
     = (None, [''prep'', ''G0W0''])"
proof -
  have 1: "check_mode GWSpecs_init = GWSpecs_init" by (simp add: check_mode_def data_init lower_ceci)
  have 2: "check_code GWSpecs_init = GWSpecs_init" by (simp add: check_code_def data_init)
  have 3: "check_source w GWSpecs_init = GWSpecs_init" for w by (simp add: check_source_def data_init)
  have ok: "script (\<lambda>spec w. [''prep'', ''G0W0'']) GWSpecs_init \<lparr>files = Map.empty, stdout = []\<rparr>
     = (None, [''prep'', ''G0W0''])"
    by (simp add: script_def GWSpecs_test_def 1 2 3 data_init)
  from test_abinit_lda_one_error [of "\<lparr>files = Map.empty, stdout = []\<rparr>" "\<lambda>spec w. [''prep'', ''G0W0'']"]
  have "script (\<lambda>spec w. [''prep'', ''G0W0''])
      (GWSpecs_init\<lparr>data := (data GWSpecs_init)\<lparr>d_code := ''ABINIT'', d_functional := ''LDA''\<rparr>\<rparr>)
      \<lparr>files = Map.empty, stdout = []\<rparr> = (Some SystemExit, [])"
    by blast
  then show ?thesis using ok by blast
qed

section \<open>Errors and warnings accumulate\<close>

text \<open>
  Claim C10. A call of \<open>GWSpecs_test\<close> only appends to the lists of errors and
  warnings. So on an object that already holds an error, a later call, whatever data
  \<open>from_dict\<close> has put in place, raises \<^verbatim>\<open>SystemExit\<close>, still holds the earlier
  errors, and prints the list that holds them.
\<close>

theorem test_never_clears:
  "(\<exists>es ws. errors (fst (snd (GWSpecs_test self w))) = errors self @ es
           \<and> warnings (fst (snd (GWSpecs_test self w))) = warnings self @ ws)
   \<and> (errors self \<noteq> [] \<longrightarrow>
        (\<forall>d. fst (from_dict self d w) = Some SystemExit
           \<and> (\<exists>es. errors (fst (snd (from_dict self d w))) = errors self @ es)
           \<and> last (stdout (snd (snd (from_dict self d w))))
               = str_list (errors (fst (snd (from_dict self d w))))))"
proof (intro conjI impI allI)
  show "\<exists>es ws. errors (fst (snd (GWSpecs_test self w))) = errors self @ es
           \<and> warnings (fst (snd (GWSpecs_test self w))) = warnings self @ ws"
    by (rule GWSpecs_test_appends)
next
  fix d
  assume e: "errors self \<noteq> []"
  then have e': "errors (self\<lparr>data := d\<rparr>) \<noteq> []" by simp
  show "fst (from_dict self d w) = Some SystemExit"
    unfolding from_dict_def by (rule GWSpecs_test_exits(1)[OF e'])
  show "\<exists>es. errors (fst (snd (from_dict self d w))) = errors self @ es"
    unfolding from_dict_def using GWSpecs_test_appends[of "self\<lparr>data := d\<rparr>" w] by auto
  show "last (stdout (snd (snd (from_dict self d w))))
               = str_list (errors (fst (snd (from_dict self d w))))"
    unfolding from_dict_def by (rule GWSpecs_test_exits(2)[OF e'])
qed

text \<open>
  The default data are valid: on a fresh object the call returns. On an object that
  holds the error of an earlier call, the same data make it exit with that error.
\<close>

theorem test_never_clears_witness:
  "errors (GWSpecs_init\<lparr>errors := [''LDAnot defined for ABINIT yet'']\<rparr>) \<noteq> []
   \<and> GWSpecs_test GWSpecs_init \<lparr>files = Map.empty, stdout = []\<rparr>
       = (None, GWSpecs_init, \<lparr>files = Map.empty, stdout = []\<rparr>)
   \<and> fst (from_dict (GWSpecs_init\<lparr>errors := [''LDAnot defined for ABINIT yet'']\<rparr>) (data GWSpecs_init)
            \<lparr>files = Map.empty, stdout = []\<rparr>) = Some SystemExit
   \<and> errors (fst (snd (from_dict (GWSpecs_init\<lparr>errors := [''LDAnot defined for ABINIT yet'']\<rparr>)
            (data GWSpecs_init) \<lparr>files = Map.empty, stdout = []\<rparr>)))
       = [''LDAnot defined for ABINIT yet'']"
proof -
  let ?s = "GWSpecs_init\<lparr>errors := [''LDAnot defined for ABINIT yet'']\<rparr>"
  let ?w = "\<lparr>files = Map.empty, stdout = []\<rparr>"
  have ne: "errors ?s \<noteq> []" by simp
  have 1: "check_mode GWSpecs_init = GWSpecs_init" by (simp add: check_mode_def data_init lower_ceci)
  have 2: "check_code GWSpecs_init = GWSpecs_init" by (simp add: check_code_def data_init)
  have 3: "check_source w GWSpecs_init = GWSpecs_init" for w by (simp add: check_source_def data_init)
  have ok: "GWSpecs_test GWSpecs_init ?w = (None, GWSpecs_init, ?w)"
    by (simp add: GWSpecs_test_def 1 2 3 data_init reset_job_collection_def)
  have obj: "fst (snd (from_dict ?s (data GWSpecs_init) ?w)) = ?s"
    by (simp add: from_dict_def GWSpecs_test_object check_mode_def check_code_def check_source_def
        data_init lower_ceci)
  from test_never_clears [of ?s ?w] ne
  have "fst (from_dict ?s (data GWSpecs_init) ?w) = Some SystemExit" by blast
  then show ?thesis using ne ok obj by simp
qed

section \<open>Folder names of the sweep\<close>

text \<open>
  Claim C4, as the code has it. Two empty selections give two empty names. Every name
  \<open>folder_name\<close> returns is empty or starts with a dot, the name of an empty selection
  is empty, and running the loop that strips the six characters on the two names again
  changes nothing. Over selections that are empty or hold one name of letters and
  underscores with an integer value, equal results come from equal selections.
\<close>

theorem folder_name_labels:
  "folder_name [[], []] = Inr [[], []]
   \<and> (\<exists>p q. folder_name (a # b # rest) = Inr [p, q]
         \<and> (p = [] \<or> (\<exists>s. p = CHR ''.'' # s)) \<and> (q = [] \<or> (\<exists>s. q = CHR ''.'' # s))
         \<and> strip_loop unsafe_chars (p, q) = (p, q)
         \<and> (a = [] \<longrightarrow> p = []) \<and> (b = [] \<longrightarrow> q = []))
   \<and> (simple_selection a \<and> simple_selection b \<and> simple_selection a' \<and> simple_selection b'
        \<and> folder_name [a, b] = folder_name [a', b'] \<longrightarrow> a = a' \<and> b = b')"
proof (intro conjI)
  show "folder_name [[], []] = Inr [[], []]"
    by (simp add: folder_name_label label_empty)
  show "\<exists>p q. folder_name (a # b # rest) = Inr [p, q]
         \<and> (p = [] \<or> (\<exists>s. p = CHR ''.'' # s)) \<and> (q = [] \<or> (\<exists>s. q = CHR ''.'' # s))
         \<and> strip_loop unsafe_chars (p, q) = (p, q)
         \<and> (a = [] \<longrightarrow> p = []) \<and> (b = [] \<longrightarrow> q = [])"
    using label_dot[of a] label_dot[of b]
    by (simp add: folder_name_label strip_loop_eq label_fixed label_empty)
  show "simple_selection a \<and> simple_selection b \<and> simple_selection a' \<and> simple_selection b'
        \<and> folder_name [a, b] = folder_name [a', b'] \<longrightarrow> a = a' \<and> b = b'"
    using label_inj by (auto simp: folder_name_label)
qed

text \<open>
  The selections NBANDS = 10 and NOMEGA = 80 give \<^verbatim>\<open>.NBANDS10\<close> and \<^verbatim>\<open>.NOMEGA80\<close>;
  NBANDS = 20 in place of NBANDS = 10 gives another result.
\<close>

theorem folder_name_labels_witness:
  "folder_name [[(''NBANDS'', IntV 10)], [(''NOMEGA'', IntV 80)]] = Inr [''.NBANDS10'', ''.NOMEGA80'']
   \<and> simple_selection [(''NBANDS'', IntV 10)] \<and> simple_selection [(''NOMEGA'', IntV 80)]
   \<and> simple_selection [(''NBANDS'', IntV 20)]
   \<and> folder_name [[(''NBANDS'', IntV 10)], [(''NOMEGA'', IntV 80)]]
       \<noteq> folder_name [[(''NBANDS'', IntV 20)], [(''NOMEGA'', IntV 80)]]
   \<and> strip_loop unsafe_chars (''.NBANDS10'', ''.NOMEGA80'') = (''.NBANDS10'', ''.NOMEGA80'')"
proof -
  have f: "folder_name [[(''NBANDS'', IntV 10)], [(''NOMEGA'', IntV 80)]] = Inr [''.NBANDS10'', ''.NOMEGA80'']"
    by code_simp
  have s: "simple_selection [(''NBANDS'', IntV 10)]" "simple_selection [(''NOMEGA'', IntV 80)]"
    "simple_selection [(''NBANDS'', IntV 20)]"
    by code_simp+
  note main = folder_name_labels [of "[(''NBANDS'', IntV 10)]" "[(''NOMEGA'', IntV 80)]" "[]"
      "[(''NBANDS'', IntV 20)]" "[(''NOMEGA'', IntV 80)]"]
  have ne: "folder_name [[(''NBANDS'', IntV 10)], [(''NOMEGA'', IntV 80)]]
       \<noteq> folder_name [[(''NBANDS'', IntV 20)], [(''NOMEGA'', IntV 80)]]"
    using main s by auto
  have st: "strip_loop unsafe_chars (''.NBANDS10'', ''.NOMEGA80'') = (''.NBANDS10'', ''.NOMEGA80'')"
    using main f by auto
  show ?thesis using f s ne st by blast
qed

text \<open>
  Over all selections the names collide: the key \<^verbatim>\<open>NBANDS1\<close> with the value 0 and the
  key \<^verbatim>\<open>NBANDS\<close> with the value 10 both give \<^verbatim>\<open>.NBANDS10\<close>, since the characters that
  separate a key from its value are among those stripped.
\<close>

theorem folder_name_collision_counterexample:
  "folder_name [[(''NBANDS1'', IntV 0)], []] = folder_name [[(''NBANDS'', IntV 10)], []]
   \<and> [[(''NBANDS1'', IntV 0)], []] \<noteq> [[(''NBANDS'', IntV 10)], ([] :: selection)]"
proof -
  have "folder_name [[(''NBANDS1'', IntV 0)], []] = Inr [''.NBANDS10'', []]" by code_simp
  moreover have "folder_name [[(''NBANDS'', IntV 10)], []] = Inr [''.NBANDS10'', []]" by code_simp
  ultimately show ?thesis by simp
qed

end
